theory Spec2Isabelle
  imports Complex_Main
begin

section \<open>Data model\<close>

text \<open>
  The notebook drives an optics engine whose elements are Python objects that the
  alignment steps mutate in place. An active chain is a Python list of references to
  such objects, so the model has an explicit store: a handle stands for an object
  reference, the store maps every handle to the current field values of its object,
  and a chain is a list of handles. Two positions of a chain may hold the same handle,
  as two positions of a Python list may hold the same object.

  Floating-point values are kept abstract: \<open>'f\<close> is the type of the floats, and the
  arithmetic the code performs on them is a parameter of the model (record \<open>env\<close>).
  Nothing is assumed about these operations beyond their being functions.
\<close>

type_synonym handle = nat

datatype py_error =
    ValueError string
  | IndexError
  | AttributeError
  | ZeroDivisionError
  | LibraryError string

text \<open>
  An optical element. \<open>grating_attrs\<close> holds \<open>(order_align, line_density)\<close>, the two
  attributes only grating objects have; it is \<open>None\<close> on every other kind of element,
  where reading either attribute raises. \<open>engine_state\<close> is whatever else the optics
  engine keeps on the object (undulator setting, divergence, curvatures, ruling law).
\<close>

record ('f, 'u) optical_element =
  name :: string
  theta :: 'f
  phi :: 'f
  distance_from_previous :: 'f
  next_oe :: "handle option"
  grating_attrs :: "(int \<times> 'f) option"
  engine_state :: 'u

type_synonym ('f, 'u) store = "handle \<Rightarrow> ('f, 'u) optical_element"

text \<open>The dictionary returned by the grating solver.\<close>

record 'f gdict =
  alpha :: 'f
  beta :: 'f
  alpha_deg :: 'f
  beta_deg :: 'f
  deviation :: 'f

text \<open>
  The keyword options the alignment steps read with \<open>kwargs.get\<close>. The \<open>verbose\<close>
  option only switches printing on; the model is of the default, \<open>verbose=False\<close>.
\<close>

record 'f kwargs =
  dist_slit :: "'f option"
  dist_next :: "'f option"

text \<open>
  What the alignment code takes from outside the notebook:
  \<^item> float arithmetic: \<open>of_pyint\<close> turns an integer literal into a float, \<open>fsub\<close>,
    \<open>fadd\<close>, \<open>fdiv\<close> are \<open>-\<close>, \<open>+\<close>, \<open>/\<close> as numpy evaluates them (a division
    by zero gives an infinity or a NaN and does not raise), \<open>np_sin\<close> and \<open>np_tan\<close>
    are \<open>np.sin\<close> and \<open>np.tan\<close>;
  \<^item> \<open>set_undulator\<close>, the source model: from the wavelength, the options and the
    source object it gives the new engine-side state of the source, or raises;
  \<^item> \<open>align_grating\<close>, the grating solver, called with condition, condition value,
    wavelength, order, line density and the grating object: it gives the angle and
    engine-side state it applies to the grating together with its dictionary of
    results, or raises;
  \<^item> \<open>electron_parameters\<close>, the table read from the resources file, as its rows
    \<open>(BeamLineName, Long_Pos(m))\<close> in file order.
  A collaborator touches the object it is called on only, in its angle and
  engine-side state, and one that raises leaves the object as it was.
\<close>

record ('f, 'u) env =
  of_pyint :: "int \<Rightarrow> 'f"
  fsub :: "'f \<Rightarrow> 'f \<Rightarrow> 'f"
  fadd :: "'f \<Rightarrow> 'f \<Rightarrow> 'f"
  fdiv :: "'f \<Rightarrow> 'f \<Rightarrow> 'f"
  np_sin :: "'f \<Rightarrow> 'f"
  np_tan :: "'f \<Rightarrow> 'f"
  set_undulator :: "'f \<Rightarrow> 'f kwargs \<Rightarrow> ('f, 'u) optical_element \<Rightarrow> py_error + 'u"
  align_grating :: "string \<Rightarrow> 'f \<Rightarrow> 'f \<Rightarrow> int \<Rightarrow> 'f \<Rightarrow> ('f, 'u) optical_element
                      \<Rightarrow> py_error + ('f \<times> 'u \<times> 'f gdict)"
  electron_parameters :: "(string \<times> 'f) list"

section \<open>Python primitives\<close>

text \<open>\<open>xs[i]\<close> for a non-negative index: IndexError out of range.\<close>

definition item :: "'a list \<Rightarrow> nat \<Rightarrow> py_error + 'a" where
  "item xs i = (if i < length xs then Inr (xs ! i) else Inl IndexError)"

text \<open>\<open>kwargs.get(key, default)\<close>.\<close>

definition kwargs_get :: "'a option \<Rightarrow> 'a \<Rightarrow> 'a" where
  "kwargs_get v dflt = (case v of Some x \<Rightarrow> x | None \<Rightarrow> dflt)"

text \<open>\<open>sub in s\<close> on strings: \<open>sub\<close> occurs in \<open>s\<close> as a contiguous run.\<close>

fun py_in :: "string \<Rightarrow> string \<Rightarrow> bool" where
  "py_in sub [] = (sub = [])"
| "py_in sub (c # cs) = (take (length sub) (c # cs) = sub \<or> py_in sub cs)"

text \<open>
  \<open>str.lower()\<close> on the ASCII letters. Names are byte strings here; a byte outside
  \<open>A\<close>..\<open>Z\<close> is left as it is.
\<close>

definition lower_char :: "char \<Rightarrow> char" where
  "lower_char c =
     (let n = (of_char c :: nat) in if 65 \<le> n \<and> n \<le> 90 then char_of (n + 32) else c)"

definition lower :: "string \<Rightarrow> string" where
  "lower s = map lower_char s"

text \<open>
  \<open>table[table.BeamLineName == key]["Long_Pos(m)"].iloc[0]\<close>: the entry of the first
  row with that name, IndexError when no row has it.
\<close>

definition iloc0 :: "(string \<times> 'f) list \<Rightarrow> string \<Rightarrow> py_error + 'f" where
  "iloc0 table key =
     (case filter (\<lambda>row. fst row = key) table of
        [] \<Rightarrow> Inl IndexError
      | row # _ \<Rightarrow> Inr (snd row))"

text \<open>\<open>m[i][j]\<close> on a nested sequence.\<close>

definition item2 :: "'a list list \<Rightarrow> nat \<Rightarrow> nat \<Rightarrow> py_error + 'a" where
  "item2 m i j = (case item m i of Inl e \<Rightarrow> Inl e | Inr r \<Rightarrow> item r j)"

section \<open>Alignment steps\<close>

text \<open>
  Every step takes the store and returns the store it leaves behind together with the
  exception it raised, if any: a step that raises half-way has already made the
  assignments before the raise.
\<close>

type_synonym ('f, 'u) outcome = "py_error option \<times> ('f, 'u) store"

subsection \<open>Undulator\<close>

definition align_undulator ::
  "('f, 'u) env \<Rightarrow> handle list \<Rightarrow> 'f \<Rightarrow> 'f kwargs \<Rightarrow> ('f, 'u) store \<Rightarrow> ('f, 'u) outcome" where
  "align_undulator E active_chain wavelength kwargs s =
     (let dist_slit_v = kwargs_get (dist_slit kwargs) (of_pyint E 21) in
      case item active_chain 0 of
        Inl e \<Rightarrow> (Some e, s)
      | Inr src \<Rightarrow>
     (case set_undulator E wavelength kwargs (s src) of
        Inl e \<Rightarrow> (Some e, s)
      | Inr u \<Rightarrow>
     (let s1 = s(src := (s src)\<lparr>engine_state := u\<rparr>) in
      case item active_chain 1 of
        Inl e \<Rightarrow> (Some e, s1)
      | Inr ap \<Rightarrow>
     (let s2 = s1(ap := (s1 ap)\<lparr>distance_from_previous := dist_slit_v\<rparr>) in
      if py_in ''65'' (name (s2 src)) then
        (let old = distance_from_previous (s2 ap) in
         case iloc0 (electron_parameters E) ''DEIMOS_2'' of
           Inl e \<Rightarrow> (Some e, s2)
         | Inr p2 \<Rightarrow>
        (case iloc0 (electron_parameters E) ''DEIMOS_1'' of
           Inl e \<Rightarrow> (Some e, s2)
         | Inr p1 \<Rightarrow>
           (None, s2(ap := (s2 ap)\<lparr>distance_from_previous := fsub E old (fsub E p2 p1)\<rparr>))))
      else (None, s2)))))"

subsection \<open>M1\<close>

definition align_m1 ::
  "('f, 'u) env \<Rightarrow> handle list \<Rightarrow> 'f list list \<Rightarrow> 'f kwargs \<Rightarrow> ('f, 'u) store
     \<Rightarrow> ('f, 'u) outcome" where
  "align_m1 E active_chain m1_distances kwargs s =
     (let dist_next_v = kwargs_get (dist_next kwargs) (of_pyint E 5) in
      case item active_chain 3 of
        Inl e \<Rightarrow> (Some e, s)
      | Inr oe3 \<Rightarrow>
     (case item active_chain 2 of
        Inl e \<Rightarrow> (Some e, s)
      | Inr oe2 \<Rightarrow>
     (let s1 = s(oe2 := (s oe2)\<lparr>theta := theta (s oe3)\<rparr>);
          s2 = s1(oe2 := (s1 oe2)\<lparr>next_oe := Some oe3\<rparr>) in
      case item active_chain 4 of
        Inl e \<Rightarrow> (Some e, s2)
      | Inr oe4 \<Rightarrow>
     (let s3 = s2(oe3 := (s2 oe3)\<lparr>next_oe := Some oe4\<rparr>);
          s4 = s3(oe4 := (s3 oe4)\<lparr>distance_from_previous := dist_next_v\<rparr>) in
      if py_in ''1B'' (name (s4 oe3)) then
        (let old = distance_from_previous (s4 oe4) in
         case item2 m1_distances 1 1 of
           Inl e \<Rightarrow> (Some e, s4)
         | Inr b \<Rightarrow>
        (case item2 m1_distances 0 1 of
           Inl e \<Rightarrow> (Some e, s4)
         | Inr a \<Rightarrow>
           (None, s4(oe4 := (s4 oe4)\<lparr>distance_from_previous := fadd E old (fsub E b a)\<rparr>))))
      else (None, s4)))))"

subsection \<open>Monochromator\<close>

text \<open>The test the scan makes on each element's name.\<close>

definition is_grating_name :: "string \<Rightarrow> bool" where
  "is_grating_name n = (py_in ''reseau'' (lower n) \<or> py_in ''grating'' (lower n))"

text \<open>
  The scan of \<open>align_mono\<close>: \<open>count\<close> is the position of the next element, \<open>found\<close>
  is \<open>(grating, mono_oe_pos)\<close> once an element has matched. The loop has no
  \<open>break\<close>: every later match overwrites both variables.
\<close>

fun scan_chain ::
  "('f, 'u) store \<Rightarrow> handle list \<Rightarrow> nat \<Rightarrow> (handle \<times> nat) option \<Rightarrow> (handle \<times> nat) option" where
  "scan_chain s [] count found = found"
| "scan_chain s (oe # rest) count found =
     scan_chain s rest (Suc count)
       (if is_grating_name (name (s oe)) then Some (oe, count) else found)"

definition no_grating_msg :: string where
  "no_grating_msg = ''No grating appears in this beamline configuration''"

definition align_mono ::
  "('f, 'u) env \<Rightarrow> handle list \<Rightarrow> 'f \<Rightarrow> string \<Rightarrow> 'f \<Rightarrow> 'f \<Rightarrow> 'f \<Rightarrow> ('f, 'u) store
     \<Rightarrow> ('f, 'u) outcome" where
  "align_mono E active_chain wavelength alignment_condition alignment_condition_value
       GM2_trans_dist GM3_proj_dist s =
     (case scan_chain s active_chain 0 None of
        None \<Rightarrow> (Some (ValueError no_grating_msg), s)
      | Some (grating, mono_oe_pos) \<Rightarrow>
     (case grating_attrs (s grating) of
        None \<Rightarrow> (Some AttributeError, s)
      | Some (order_align, line_density) \<Rightarrow>
     (case align_grating E alignment_condition alignment_condition_value wavelength
             order_align line_density (s grating) of
        Inl e \<Rightarrow> (Some e, s)
      | Inr (th, u, gd) \<Rightarrow>
     (let s1 = s(grating := (s grating)\<lparr>theta := th, engine_state := u\<rparr>);
          gm2 = fdiv E GM2_trans_dist (np_sin E (deviation gd));
          m2m3 = fsub E GM3_proj_dist (fdiv E GM2_trans_dist (np_tan E (deviation gd))) in
      case item active_chain (mono_oe_pos + 1) of
        Inl e \<Rightarrow> (Some e, s1)
      | Inr m2 \<Rightarrow>
     (let s2 = s1(m2 := (s1 m2)\<lparr>theta := fdiv E (deviation gd) (of_pyint E 2)\<rparr>);
          s3 = s2(m2 := (s2 m2)\<lparr>distance_from_previous := gm2\<rparr>) in
      case item active_chain (mono_oe_pos + 2) of
        Inl e \<Rightarrow> (Some e, s3)
      | Inr m3 \<Rightarrow>
        (None, s3(m3 := (s3 m3)\<lparr>distance_from_previous := m2m3\<rparr>)))))))"

subsection \<open>The alignment procedure\<close>

text \<open>
  \<open>align_call\<close> runs the three steps on the active chain, in this order; an exception
  of one step ends the call, with the earlier steps' assignments made.
\<close>

definition align_call ::
  "('f, 'u) env \<Rightarrow> handle list \<Rightarrow> 'f \<Rightarrow> 'f \<Rightarrow> string \<Rightarrow> 'f \<Rightarrow> 'f list list \<Rightarrow> 'f \<Rightarrow> 'f
     \<Rightarrow> 'f kwargs \<Rightarrow> ('f, 'u) store \<Rightarrow> ('f, 'u) outcome" where
  "align_call E active_chain alignment_wvl emission_wvl alignment_condition
       alignment_condition_value m1_distances GM2_trans_dist GM3_proj_dist kwargs s =
     (case align_undulator E active_chain emission_wvl kwargs s of
        (Some e, s1) \<Rightarrow> (Some e, s1)
      | (None, s1) \<Rightarrow>
     (case align_m1 E active_chain m1_distances kwargs s1 of
        (Some e, s2) \<Rightarrow> (Some e, s2)
      | (None, s2) \<Rightarrow>
        align_mono E active_chain alignment_wvl alignment_condition
          alignment_condition_value GM2_trans_dist GM3_proj_dist s2))"

section \<open>The energy sweep\<close>

text \<open>
  \<open>beamline_energy_resolution\<close> works on the beamline object as a whole, through two
  calls of the optics engine; \<open>'b\<close> is the state of that object and \<open>'r\<close> the type of a
  resolution figure. From outside the notebook it takes:
  \<^item> \<open>hc\<close> and \<open>truediv\<close>, Python's \<open>/\<close> on the energy values (which raises on a
    Python zero);
  \<^item> \<open>fmt_2f\<close>, the formatting \<open>{:.2f}\<close>;
  \<^item> \<open>set_active_chain\<close>, the assignment \<open>Deimos.active_chain = config\<close>;
  \<^item> \<open>get_resolution\<close>, called with wavelength, number of rays, condition and
    condition value (its other arguments are constants of the notebook).
  Printing is not modelled.
\<close>

record ('f, 'r, 'b) sweep_env =
  hc :: 'f
  truediv :: "'f \<Rightarrow> 'f \<Rightarrow> py_error + 'f"
  fmt_2f :: "'f \<Rightarrow> string"
  set_active_chain :: "string \<Rightarrow> 'b \<Rightarrow> py_error + 'b"
  get_resolution :: "'f \<Rightarrow> nat \<Rightarrow> string \<Rightarrow> 'f \<Rightarrow> 'b \<Rightarrow> (py_error + 'r) \<times> 'b"

text \<open>\<open>a % b\<close> on non-negative Python integers.\<close>

definition py_mod :: "nat \<Rightarrow> nat \<Rightarrow> py_error + nat" where
  "py_mod a b = (if b = 0 then Inl ZeroDivisionError else Inr (a mod b))"

text \<open>A column of the result: the energy axis, or the curve of one configuration.\<close>

datatype ('f, 'r) column = Energy "'f list" | Curve "'r list"

text \<open>\<open>d[k] = v\<close> on a dictionary kept in insertion order.\<close>

fun dict_set :: "'k \<Rightarrow> 'v \<Rightarrow> ('k \<times> 'v) list \<Rightarrow> ('k \<times> 'v) list" where
  "dict_set k v [] = [(k, v)]"
| "dict_set k v ((k', v') # d) = (if k' = k then (k, v) # d else (k', v') # dict_set k v d)"

text \<open>The loop over the energy points; \<open>i\<close> is the index \<open>enumerate\<close> gives.\<close>

fun energy_loop ::
  "('f, 'r, 'b) sweep_env \<Rightarrow> string \<Rightarrow> 'f \<Rightarrow> nat \<Rightarrow> nat \<Rightarrow> nat \<Rightarrow> 'f list \<Rightarrow> 'r list \<Rightarrow> 'b
     \<Rightarrow> (py_error + 'r list) \<times> 'b" where
  "energy_loop W alignment_condition algn nrays total_steps i [] curves b = (Inr curves, b)"
| "energy_loop W alignment_condition algn nrays total_steps i (E # rest) curves b =
     (case py_mod i (total_steps div 10) of
        Inl e \<Rightarrow> (Inl e, b)
      | Inr _ \<Rightarrow>
     (case truediv W (hc W) E of
        Inl e \<Rightarrow> (Inl e, b)
      | Inr lambda_align \<Rightarrow>
     (case get_resolution W lambda_align nrays alignment_condition algn b of
        (Inl e, b') \<Rightarrow> (Inl e, b')
      | (Inr res, b') \<Rightarrow>
        energy_loop W alignment_condition algn nrays total_steps (Suc i) rest
          (curves @ [res]) b')))"

text \<open>The loop over the configurations, for one condition value.\<close>

fun chains_loop ::
  "('f, 'r, 'b) sweep_env \<Rightarrow> 'f list \<Rightarrow> string \<Rightarrow> 'f \<Rightarrow> nat \<Rightarrow> string list
     \<Rightarrow> (string \<times> ('f, 'r) column) list \<Rightarrow> 'b
     \<Rightarrow> (py_error + (string \<times> ('f, 'r) column) list) \<times> 'b" where
  "chains_loop W energy alignment_condition algn nrays [] resolution b = (Inr resolution, b)"
| "chains_loop W energy alignment_condition algn nrays (config # rest) resolution b =
     (case set_active_chain W config b of
        Inl e \<Rightarrow> (Inl e, b)
      | Inr b1 \<Rightarrow>
     (case energy_loop W alignment_condition algn nrays (length energy) 0 energy [] b1 of
        (Inl e, b2) \<Rightarrow> (Inl e, b2)
      | (Inr curves, b2) \<Rightarrow>
        chains_loop W energy alignment_condition algn nrays rest
          (dict_set (config @ ''_'' @ alignment_condition @ ''_'' @ fmt_2f W algn)
             (Curve curves) resolution) b2))"

text \<open>The loop over the condition values.\<close>

fun values_loop ::
  "('f, 'r, 'b) sweep_env \<Rightarrow> 'f list \<Rightarrow> string list \<Rightarrow> string \<Rightarrow> nat \<Rightarrow> 'f list
     \<Rightarrow> (string \<times> ('f, 'r) column) list \<Rightarrow> 'b
     \<Rightarrow> (py_error + (string \<times> ('f, 'r) column) list) \<times> 'b" where
  "values_loop W energy active_chains alignment_condition nrays [] resolution b =
     (Inr resolution, b)"
| "values_loop W energy active_chains alignment_condition nrays (algn # rest) resolution b =
     (case chains_loop W energy alignment_condition algn nrays active_chains resolution b of
        (Inl e, b1) \<Rightarrow> (Inl e, b1)
      | (Inr resolution1, b1) \<Rightarrow>
        values_loop W energy active_chains alignment_condition nrays rest resolution1 b1)"

definition beamline_energy_resolution ::
  "('f, 'r, 'b) sweep_env \<Rightarrow> 'f list \<Rightarrow> string list \<Rightarrow> string \<Rightarrow> 'f list \<Rightarrow> nat \<Rightarrow> 'b
     \<Rightarrow> (py_error + (string \<times> ('f, 'r) column) list) \<times> 'b" where
  "beamline_energy_resolution W energy active_chains alignment_condition
       alignment_condition_values nrays b =
     values_loop W energy active_chains alignment_condition nrays alignment_condition_values
       [(''energy'', Energy energy)] b"

section \<open>A concrete beamline\<close>

text \<open>
  The layout the notebook builds (source, pupil, M1A, M1B, grating, M2, M3 and the two
  focal planes), with the floats read as real numbers and simple stand-ins for the
  source model and the grating solver: the source remembers the wavelength it was
  tuned to, and the solver knows the fixed-deviation condition only, for which the
  deviation is twice the condition value. Handle 9 is a second grating, named in
  French, handle 10 the other undulator and handle 11 the other branch mirror. The
  theorems below are evaluated on this input.
\<close>

definition demo_oe :: "string \<Rightarrow> real \<Rightarrow> real \<Rightarrow> (int \<times> real) option \<Rightarrow> (real, real) optical_element" where
  "demo_oe n th d g =
     \<lparr>name = n, theta = th, phi = 0, distance_from_previous = d, next_oe = None,
      grating_attrs = g, engine_state = 0\<rparr>"

definition demo_store :: "(real, real) store" where
  "demo_store h =
     (if h = 0 then demo_oe ''U65'' 0 0 None
      else if h = 1 then demo_oe ''pupil'' 0 21 None
      else if h = 2 then demo_oe ''M1A'' 0 0 None
      else if h = 3 then demo_oe ''M1B'' (4416 / 100000) (4648 / 10000) None
      else if h = 4 then demo_oe ''grating_1600'' 0 5 (Some (1, 1600000))
      else if h = 5 then demo_oe ''M2'' 0 0 None
      else if h = 6 then demo_oe ''M3'' (2094 / 100000) 0 None
      else if h = 7 then demo_oe ''mono_foc_hor'' 0 (2 / 10) None
      else if h = 8 then demo_oe ''mono_foc_ver'' 0 (38 / 10) None
      else if h = 9 then demo_oe ''Reseau_2400'' 0 5 (Some (1, 2400000))
      else if h = 10 then demo_oe ''U52'' 0 0 None
      else if h = 11 then demo_oe ''M1C'' (2094 / 100000) (9873 / 10000) None
      else demo_oe [] 0 0 None)"

definition demo_chain :: "handle list" where
  "demo_chain = [0, 1, 2, 3, 4, 5, 6, 7, 8]"


definition demo_chain_two :: "handle list" where
  "demo_chain_two = [0, 1, 2, 3, 4, 9, 5, 6, 7, 8]"

definition demo_chain_bare :: "handle list" where
  "demo_chain_bare = [0, 1, 2, 3, 5, 6, 7, 8]"

definition demo_chain_u52 :: "handle list" where
  "demo_chain_u52 = [10, 1, 2, 3, 4, 5, 6, 7, 8]"

definition demo_chain_m1c :: "handle list" where
  "demo_chain_m1c = [0, 1, 2, 11, 4, 5, 6, 7, 8]"

definition demo_env :: "(real, real) env" where
  "demo_env =
     \<lparr>of_pyint = of_int, fsub = (-), fadd = (+), fdiv = (/), np_sin = sin, np_tan = tan,
      set_undulator = (\<lambda>w k e. Inr w),
      align_grating = (\<lambda>c v w k n e.
         if c = ''omega''
         then Inr (v, engine_state e,
                   \<lparr>alpha = v, beta = v, alpha_deg = v, beta_deg = v, deviation = 2 * v\<rparr>)
         else Inl (ValueError ''unknown condition'')),
      electron_parameters = [(''DEIMOS_1'', 0), (''DEIMOS_2'', 18 / 10)]\<rparr>"

definition demo_kwargs :: "real kwargs" where
  "demo_kwargs = \<lparr>dist_slit = None, dist_next = None\<rparr>"

definition demo_kwargs_given :: "real kwargs" where
  "demo_kwargs_given = \<lparr>dist_slit = Some 20, dist_next = Some 6\<rparr>"

definition demo_m1_distances :: "real list list" where
  "demo_m1_distances = [[4648 / 10000, 4630 / 10000], [9873 / 10000, 9865 / 10000]]"

text \<open>
  For the sweep: the state of the beamline object is the number of resolution
  computations made so far, selecting a chain always succeeds, and the resolution
  figure returned is the wavelength asked for.
\<close>

definition demo_sweep :: "(real, real, nat) sweep_env" where
  "demo_sweep =
     \<lparr>hc = 123984 / 10 ^ 11,
      truediv = (\<lambda>a b. if b = 0 then Inl ZeroDivisionError else Inr (a / b)),
      fmt_2f = (\<lambda>v. if v = 1 / 10 then ''0.10'' else if v = 1 / 2 then ''0.50'' else ''0.00''),
      set_active_chain = (\<lambda>config b. Inr b),
      get_resolution = (\<lambda>w nrays c v b. (Inr w, Suc b))\<rparr>"

section \<open>The keyword test as the specification words it\<close>

text \<open>
  The specification describes the scan as a case-insensitive match on the keyword
  \<open>grating\<close> alone. This predicate follows those words, to be compared with the test
  the code makes (\<open>is_grating_name\<close>): some element of the chain has a name containing
  \<open>grating\<close>, letter case ignored.
\<close>

definition has_grating_keyword :: "('f, 'u) store \<Rightarrow> handle list \<Rightarrow> bool" where
  "has_grating_keyword s active_chain =
     list_ex (\<lambda>oe. py_in ''grating'' (lower (name (s oe)))) active_chain"

section \<open>Properties\<close>

subsection \<open>Auxiliary facts\<close>

lemma window_mem:
  assumes "i < 3" "2 + i < length c"
  shows "c ! (2 + i) \<in> set (take 3 (drop 2 c))"
proof -
  have "i < length (take 3 (drop 2 c))" using assms by simp
  then have "take 3 (drop 2 c) ! i \<in> set (take 3 (drop 2 c))" by (rule nth_mem)
  then show ?thesis using assms by simp
qed

lemma window_distinct:
  assumes d: "distinct (take 3 (drop 2 c))" and "i < j" "j < 3" "2 + j < length c"
  shows "c ! (2 + i) \<noteq> c ! (2 + j)"
proof -
  have li: "i < length (take 3 (drop 2 c))" and lj: "j < length (take 3 (drop 2 c))"
    using assms by simp_all
  have "i \<noteq> j" using assms by simp
  then have "take 3 (drop 2 c) ! i \<noteq> take 3 (drop 2 c) ! j"
    using nth_eq_iff_index_eq [OF d li lj] by blast
  then show ?thesis using assms by simp
qed

lemma align_m1_store:
  assumes l: "4 < length c"
  shows "\<exists>d. snd (align_m1 E c m kw s) =
           (let s2 = s(c ! 2 := (s (c ! 2))\<lparr>theta := theta (s (c ! 3)), next_oe := Some (c ! 3)\<rparr>);
                s3 = s2(c ! 3 := (s2 (c ! 3))\<lparr>next_oe := Some (c ! 4)\<rparr>)
            in s3(c ! 4 := (s3 (c ! 4))\<lparr>distance_from_previous := d\<rparr>))"
proof -
  have l': "2 < length c" "3 < length c" using l by simp_all
  show ?thesis
    using l l'
    by (auto simp: align_m1_def Let_def item_def fun_upd_same fun_upd_upd simp del: fun_upd_apply split: sum.splits)
qed

lemma scan_chain_no_match:
  "(\<And>h. h \<in> set c \<Longrightarrow> \<not> is_grating_name (name (s h))) \<Longrightarrow> scan_chain s c n found = found"
  by (induction c arbitrary: n found) simp_all

lemma scan_chain_last:
  assumes "p < length c" "is_grating_name (name (s (c ! p)))"
    and "\<And>q. p < q \<Longrightarrow> q < length c \<Longrightarrow> \<not> is_grating_name (name (s (c ! q)))"
  shows "scan_chain s c n found = Some (c ! p, n + p)"
  using assms
proof (induction c arbitrary: n found p)
  case Nil
  then show ?case by simp
next
  case (Cons oe rest)
  show ?case
  proof (cases p)
    case 0
    have "\<And>h. h \<in> set rest \<Longrightarrow> \<not> is_grating_name (name (s h))"
    proof -
      fix h assume "h \<in> set rest"
      then obtain i where i: "i < length rest" "rest ! i = h"
        by (auto simp: in_set_conv_nth)
      then have "\<not> is_grating_name (name (s ((oe # rest) ! Suc i)))"
        using Cons.prems(3) [of "Suc i"] 0 by simp
      then show "\<not> is_grating_name (name (s h))" using i by simp
    qed
    then have "scan_chain s rest (Suc n) (Some (oe, n)) = Some (oe, n)"
      by (rule scan_chain_no_match)
    then show ?thesis using 0 Cons.prems(2) by simp
  next
    case (Suc p')
    have "scan_chain s rest (Suc n)
            (if is_grating_name (name (s oe)) then Some (oe, n) else found) =
          Some (rest ! p', Suc n + p')"
    proof (rule Cons.IH)
      show "p' < length rest" using Cons.prems(1) Suc by simp
      show "is_grating_name (name (s (rest ! p')))" using Cons.prems(2) Suc by simp
      show "\<not> is_grating_name (name (s (rest ! q)))" if "p' < q" "q < length rest" for q
        using Cons.prems(3) [of "Suc q"] that Suc by simp
    qed
    then show ?thesis using Suc by simp
  qed
qed

lemma scan_chain_Some:
  "scan_chain s c n found = Some (g, p) \<Longrightarrow>
     (found = Some (g, p) \<and> (\<forall>h \<in> set c. \<not> is_grating_name (name (s h)))) \<or>
     (n \<le> p \<and> p - n < length c \<and> g = c ! (p - n) \<and> is_grating_name (name (s g)) \<and>
      (\<forall>q. p - n < q \<and> q < length c \<longrightarrow> \<not> is_grating_name (name (s (c ! q)))))"
proof (induction c arbitrary: n found)
  case Nil
  then show ?case by simp
next
  case (Cons oe rest)
  let ?f = "if is_grating_name (name (s oe)) then Some (oe, n) else found"
  from Cons.prems have "scan_chain s rest (Suc n) ?f = Some (g, p)" by simp
  from Cons.IH [OF this]
  consider (old) "?f = Some (g, p)" "\<forall>h \<in> set rest. \<not> is_grating_name (name (s h))"
    | (new) "Suc n \<le> p" "p - Suc n < length rest" "g = rest ! (p - Suc n)"
        "is_grating_name (name (s g))"
        "\<forall>q. p - Suc n < q \<and> q < length rest \<longrightarrow> \<not> is_grating_name (name (s (rest ! q)))"
    by blast
  then show ?case
  proof cases
    case old
    show ?thesis
    proof (cases "is_grating_name (name (s oe))")
      case True
      with old have gp: "g = oe" "p = n" by simp_all
      have "\<forall>q. 0 < q \<and> q < length (oe # rest) \<longrightarrow>
              \<not> is_grating_name (name (s ((oe # rest) ! q)))"
        using old(2) by (auto simp: nth_Cons split: nat.splits)
      then show ?thesis using True gp by simp
    next
      case False
      then show ?thesis using old by simp
    qed
  next
    case new
    have e: "p - n = Suc (p - Suc n)" using new(1) by simp
    have "\<forall>q. p - n < q \<and> q < length (oe # rest) \<longrightarrow>
            \<not> is_grating_name (name (s ((oe # rest) ! q)))"
    proof (intro allI impI)
      fix q assume q: "p - n < q \<and> q < length (oe # rest)"
      then obtain q' where q': "q = Suc q'" by (cases q) simp_all
      with q e have "p - Suc n < q' \<and> q' < length rest" by simp
      with new(5) have "\<not> is_grating_name (name (s (rest ! q')))" by blast
      then show "\<not> is_grating_name (name (s ((oe # rest) ! q)))" using q' by simp
    qed
    then show ?thesis using new e by simp
  qed
qed

lemma scan_chain_located:
  assumes "scan_chain s c 0 None = Some (g, p)"
  shows "p < length c \<and> g = c ! p \<and> is_grating_name (name (s g)) \<and>
         (\<forall>q. p < q \<and> q < length c \<longrightarrow> \<not> is_grating_name (name (s (c ! q))))"
  using scan_chain_Some [OF assms] by auto

lemma scan_chain_None_iff:
  "scan_chain s c 0 None = None \<longleftrightarrow> (\<forall>h \<in> set c. \<not> is_grating_name (name (s h)))"
proof
  assume n: "scan_chain s c 0 None = None"
  show "\<forall>h \<in> set c. \<not> is_grating_name (name (s h))"
  proof (rule ccontr)
    assume "\<not> (\<forall>h \<in> set c. \<not> is_grating_name (name (s h)))"
    then obtain i where i: "i < length c" "is_grating_name (name (s (c ! i)))"
      by (auto simp: in_set_conv_nth)
    define P where "P q \<longleftrightarrow> q < length c \<and> is_grating_name (name (s (c ! q)))" for q
    have "P i" using i by (simp add: P_def)
    have b: "\<And>q. P q \<Longrightarrow> q \<le> length c" by (simp add: P_def)
    have G: "P (Greatest P)" using \<open>P i\<close> b by (rule GreatestI_nat)
    have g: "q \<le> Greatest P" if "P q" for q
      using that b by (rule Greatest_le_nat)
    have "scan_chain s c 0 None = Some (c ! Greatest P, 0 + Greatest P)"
    proof (rule scan_chain_last)
      show "Greatest P < length c" using G by (simp add: P_def)
      show "is_grating_name (name (s (c ! Greatest P)))" using G by (simp add: P_def)
      show "\<not> is_grating_name (name (s (c ! q)))" if "Greatest P < q" "q < length c" for q
      proof
        assume "is_grating_name (name (s (c ! q)))"
        then have "P q" using that by (simp add: P_def)
        then have "q \<le> Greatest P" by (rule g)
        with that show False by simp
      qed
    qed
    with n show False by simp
  qed
next
  assume "\<forall>h \<in> set c. \<not> is_grating_name (name (s h))"
  then show "scan_chain s c 0 None = None"
    by (intro scan_chain_no_match) simp
qed

lemma align_mono_located:
  assumes sc: "scan_chain s c 0 None = Some (g, p)"
    and at: "grating_attrs (s g) = Some (k, n)"
    and so: "align_grating E cond v w k n (s g) = Inr (th, u, gd)"
    and l: "p + 2 < length c"
  shows "align_mono E c w cond v gm2 gm3 s =
           (None,
            (let s1 = s(g := (s g)\<lparr>theta := th, engine_state := u\<rparr>);
                 s3 = s1(c ! (p + 1) := (s1 (c ! (p + 1)))
                        \<lparr>theta := fdiv E (deviation gd) (of_pyint E 2),
                         distance_from_previous := fdiv E gm2 (np_sin E (deviation gd))\<rparr>)
             in s3(c ! (p + 2) := (s3 (c ! (p + 2)))
                  \<lparr>distance_from_previous :=
                     fsub E gm3 (fdiv E gm2 (np_tan E (deviation gd)))\<rparr>)))"
proof -
  have l1: "Suc p < length c" and l2: "Suc (Suc p) < length c" using l by simp_all
  show ?thesis
    by (simp add: align_mono_def sc at so item_def l1 l2 Let_def fun_upd_same fun_upd_upd
          del: fun_upd_apply)
qed

lemma demo_names:
  "\<not> is_grating_name ''U65''" "\<not> is_grating_name ''pupil''" "\<not> is_grating_name ''M1A''"
  "\<not> is_grating_name ''M1B''" "is_grating_name ''grating_1600''" "\<not> is_grating_name ''M2''"
  "\<not> is_grating_name ''M3''" "\<not> is_grating_name ''mono_foc_hor''"
  "\<not> is_grating_name ''mono_foc_ver''" "is_grating_name ''Reseau_2400''"
  by code_simp+

lemma demo_ops:
  "of_pyint demo_env = of_int" "fsub demo_env = (-)" "fadd demo_env = (+)"
  "fdiv demo_env = (/)" "np_sin demo_env = sin" "np_tan demo_env = tan"
  by (simp_all add: demo_env_def)

lemma demo_tags:
  "py_in ''65'' ''U65''" "py_in ''1B'' ''M1B''"
  "\<not> py_in ''65'' ''U52''" "\<not> py_in ''1B'' ''M1C''"
  by code_simp+

lemma demo_table:
  "iloc0 (electron_parameters demo_env) ''DEIMOS_2'' = Inr (18 / 10)"
  "iloc0 (electron_parameters demo_env) ''DEIMOS_1'' = Inr 0"
  by (simp_all add: iloc0_def demo_env_def)

lemma demo_m1_table:
  "item2 demo_m1_distances 1 1 = Inr (9865 / 10000)"
  "item2 demo_m1_distances 0 1 = Inr (4630 / 10000)"
  by (simp_all add: item2_def item_def demo_m1_distances_def)

subsection \<open>The undulator step\<close>

text \<open>
  Claim C6. On a chain of at least two elements whose source the source model accepts,
  \<open>align_undulator\<close> returns normally and leaves the second element's
  \<open>distance_from_previous\<close> at the default (the \<open>dist_slit\<close> option, 21 when it is not
  given), less the difference of the \<open>DEIMOS_2\<close> and \<open>DEIMOS_1\<close> longitudinal positions
  exactly when the source's name contains \<open>65\<close>; for every other source it is the
  default itself.
\<close>

theorem align_undulator_distance:
  assumes len: "2 \<le> length active_chain"
    and src: "set_undulator E wavelength kwargs (s (active_chain ! 0)) = Inr u"
    and tbl: "py_in ''65'' (name (s (active_chain ! 0))) \<Longrightarrow>
                iloc0 (electron_parameters E) ''DEIMOS_2'' = Inr pos_two \<and>
                iloc0 (electron_parameters E) ''DEIMOS_1'' = Inr pos_one"
  shows "fst (align_undulator E active_chain wavelength kwargs s) = None \<and>
         distance_from_previous
           (snd (align_undulator E active_chain wavelength kwargs s) (active_chain ! 1)) =
           (if py_in ''65'' (name (s (active_chain ! 0)))
            then fsub E (case dist_slit kwargs of Some d \<Rightarrow> d | None \<Rightarrow> of_pyint E 21)
                   (fsub E pos_two pos_one)
            else (case dist_slit kwargs of Some d \<Rightarrow> d | None \<Rightarrow> of_pyint E 21))"
proof -
  have l: "0 < length active_chain" "Suc 0 < length active_chain"
    using len by auto
  show ?thesis
    using src tbl l
    by (auto simp: align_undulator_def Let_def item_def kwargs_get_def split: option.splits)
qed

text \<open>
  The theorem on the concrete beamline: with the U65 source and with the U52 source,
  each without the \<open>dist_slit\<close> option and with the option set to 20.
\<close>

theorem align_undulator_distance_witness:
  "2 \<le> length demo_chain \<and> 2 \<le> length demo_chain_u52 \<and>
   py_in ''65'' (name (demo_store (demo_chain ! 0))) \<and>
   \<not> py_in ''65'' (name (demo_store (demo_chain_u52 ! 0))) \<and>
   fst (align_undulator demo_env demo_chain (3 / 10 ^ 9) demo_kwargs demo_store) = None \<and>
   distance_from_previous
     (snd (align_undulator demo_env demo_chain (3 / 10 ^ 9) demo_kwargs demo_store) 1) =
     21 - (18 / 10 - 0) \<and>
   fst (align_undulator demo_env demo_chain (3 / 10 ^ 9) demo_kwargs_given demo_store) = None \<and>
   distance_from_previous
     (snd (align_undulator demo_env demo_chain (3 / 10 ^ 9) demo_kwargs_given demo_store) 1) =
     20 - (18 / 10 - 0) \<and>
   fst (align_undulator demo_env demo_chain_u52 (3 / 10 ^ 9) demo_kwargs demo_store) = None \<and>
   distance_from_previous
     (snd (align_undulator demo_env demo_chain_u52 (3 / 10 ^ 9) demo_kwargs demo_store) 1) =
     21 \<and>
   fst (align_undulator demo_env demo_chain_u52 (3 / 10 ^ 9) demo_kwargs_given demo_store) =
     None \<and>
   distance_from_previous
     (snd (align_undulator demo_env demo_chain_u52 (3 / 10 ^ 9) demo_kwargs_given demo_store) 1) =
     20"
proof -
  have len: "2 \<le> length demo_chain" "2 \<le> length demo_chain_u52"
    by (simp_all add: demo_chain_def demo_chain_u52_def)
  have src: "set_undulator demo_env (3 / 10 ^ 9) kw e = Inr (3 / 10 ^ 9)" for kw e
    by (simp add: demo_env_def)
  have nm: "py_in ''65'' (name (demo_store (demo_chain ! 0)))"
    "\<not> py_in ''65'' (name (demo_store (demo_chain_u52 ! 0)))"
    by (simp_all add: demo_chain_def demo_chain_u52_def demo_store_def demo_oe_def demo_tags)
  note T = align_undulator_distance [where E = demo_env and wavelength = "3 / 10 ^ 9"
      and s = demo_store and u = "3 / 10 ^ 9" and pos_two = "18 / 10" and pos_one = 0]
  have a: "fst (align_undulator demo_env demo_chain (3 / 10 ^ 9) demo_kwargs demo_store) = None \<and>
      distance_from_previous
        (snd (align_undulator demo_env demo_chain (3 / 10 ^ 9) demo_kwargs demo_store) 1) =
      21 - (18 / 10 - 0)"
    using T [where active_chain = demo_chain and kwargs = demo_kwargs] len src demo_table nm
    by (simp add: demo_chain_def demo_chain_u52_def demo_kwargs_def demo_ops)
  have b: "fst (align_undulator demo_env demo_chain (3 / 10 ^ 9) demo_kwargs_given demo_store) =
        None \<and>
      distance_from_previous
        (snd (align_undulator demo_env demo_chain (3 / 10 ^ 9) demo_kwargs_given demo_store) 1) =
      20 - (18 / 10 - 0)"
    using T [where active_chain = demo_chain and kwargs = demo_kwargs_given] len src demo_table nm
    by (simp add: demo_chain_def demo_chain_u52_def demo_kwargs_given_def demo_ops)
  have c: "fst (align_undulator demo_env demo_chain_u52 (3 / 10 ^ 9) demo_kwargs demo_store) =
        None \<and>
      distance_from_previous
        (snd (align_undulator demo_env demo_chain_u52 (3 / 10 ^ 9) demo_kwargs demo_store) 1) =
      21"
    using T [where active_chain = demo_chain_u52 and kwargs = demo_kwargs] len src demo_table nm
    by (simp add: demo_chain_def demo_chain_u52_def demo_kwargs_def demo_ops)
  have d: "fst (align_undulator demo_env demo_chain_u52 (3 / 10 ^ 9) demo_kwargs_given
        demo_store) = None \<and>
      distance_from_previous
        (snd (align_undulator demo_env demo_chain_u52 (3 / 10 ^ 9) demo_kwargs_given
           demo_store) 1) = 20"
    using T [where active_chain = demo_chain_u52 and kwargs = demo_kwargs_given] len src
      demo_table nm
    by (simp add: demo_chain_def demo_chain_u52_def demo_kwargs_given_def demo_ops)
  show ?thesis
    using a b c d len nm by simp
qed

subsection \<open>The M1 step\<close>

text \<open>
  Claim C7. On a chain of at least five elements whose third and fourth elements are
  different objects, \<open>align_m1\<close> returns normally; afterwards the third element's
  grazing angle is the fourth element's, the third element's \<open>next\<close> is the fourth
  element and the fourth element's \<open>next\<close> is the fifth, and the fifth element's
  \<open>distance_from_previous\<close> is the default (the \<open>dist_next\<close> option, 5 when it is not
  given), plus \<open>m1_distances[1][1] - m1_distances[0][1]\<close> exactly when the fourth
  element's name contains \<open>1B\<close>.
\<close>

theorem align_m1_sets:
  assumes len: "5 \<le> length active_chain"
    and neq: "active_chain ! 2 \<noteq> active_chain ! 3"
    and tbl: "py_in ''1B'' (name (s (active_chain ! 3))) \<Longrightarrow>
                item2 m1_distances 1 1 = Inr b \<and> item2 m1_distances 0 1 = Inr a"
  shows "fst (align_m1 E active_chain m1_distances kwargs s) = None \<and>
         theta (snd (align_m1 E active_chain m1_distances kwargs s) (active_chain ! 2)) =
           theta (s (active_chain ! 3)) \<and>
         theta (snd (align_m1 E active_chain m1_distances kwargs s) (active_chain ! 3)) =
           theta (s (active_chain ! 3)) \<and>
         next_oe (snd (align_m1 E active_chain m1_distances kwargs s) (active_chain ! 2)) =
           Some (active_chain ! 3) \<and>
         next_oe (snd (align_m1 E active_chain m1_distances kwargs s) (active_chain ! 3)) =
           Some (active_chain ! 4) \<and>
         distance_from_previous
           (snd (align_m1 E active_chain m1_distances kwargs s) (active_chain ! 4)) =
           (if py_in ''1B'' (name (s (active_chain ! 3)))
            then fadd E (case dist_next kwargs of Some d \<Rightarrow> d | None \<Rightarrow> of_pyint E 5)
                   (fsub E b a)
            else (case dist_next kwargs of Some d \<Rightarrow> d | None \<Rightarrow> of_pyint E 5))"
proof -
  have l: "2 < length active_chain" "3 < length active_chain" "4 < length active_chain"
    using len by auto
  show ?thesis
    using neq tbl l
    by (auto simp: align_m1_def Let_def item_def kwargs_get_def split: option.splits)
qed

text \<open>
  The theorem on the concrete beamline: with M1B as fourth element, without the
  \<open>dist_next\<close> option and with the option set to 6, and with M1C as fourth element
  and the option set to 6.
\<close>

theorem align_m1_sets_witness:
  "5 \<le> length demo_chain \<and> demo_chain ! 2 \<noteq> demo_chain ! 3 \<and>
   5 \<le> length demo_chain_m1c \<and> demo_chain_m1c ! 2 \<noteq> demo_chain_m1c ! 3 \<and>
   py_in ''1B'' (name (demo_store (demo_chain ! 3))) \<and>
   \<not> py_in ''1B'' (name (demo_store (demo_chain_m1c ! 3))) \<and>
   fst (align_m1 demo_env demo_chain demo_m1_distances demo_kwargs demo_store) = None \<and>
   theta (snd (align_m1 demo_env demo_chain demo_m1_distances demo_kwargs demo_store) 2) =
     4416 / 100000 \<and>
   theta (snd (align_m1 demo_env demo_chain demo_m1_distances demo_kwargs demo_store) 3) =
     4416 / 100000 \<and>
   next_oe (snd (align_m1 demo_env demo_chain demo_m1_distances demo_kwargs demo_store) 2) =
     Some 3 \<and>
   next_oe (snd (align_m1 demo_env demo_chain demo_m1_distances demo_kwargs demo_store) 3) =
     Some 4 \<and>
   distance_from_previous
     (snd (align_m1 demo_env demo_chain demo_m1_distances demo_kwargs demo_store) 4) =
     5 + (9865 / 10000 - 4630 / 10000) \<and>
   distance_from_previous
     (snd (align_m1 demo_env demo_chain demo_m1_distances demo_kwargs_given demo_store) 4) =
     6 + (9865 / 10000 - 4630 / 10000) \<and>
   fst (align_m1 demo_env demo_chain_m1c demo_m1_distances demo_kwargs_given demo_store) =
     None \<and>
   theta (snd (align_m1 demo_env demo_chain_m1c demo_m1_distances demo_kwargs_given
     demo_store) 2) = 2094 / 100000 \<and>
   next_oe (snd (align_m1 demo_env demo_chain_m1c demo_m1_distances demo_kwargs_given
     demo_store) 2) = Some 11 \<and>
   distance_from_previous
     (snd (align_m1 demo_env demo_chain_m1c demo_m1_distances demo_kwargs_given demo_store) 4) =
     6"
proof -
  have len: "5 \<le> length demo_chain" "5 \<le> length demo_chain_m1c"
    by (simp_all add: demo_chain_def demo_chain_m1c_def)
  have neq: "demo_chain ! 2 \<noteq> demo_chain ! 3" "demo_chain_m1c ! 2 \<noteq> demo_chain_m1c ! 3"
    by (simp_all add: demo_chain_def demo_chain_m1c_def)
  have nm: "py_in ''1B'' (name (demo_store (demo_chain ! 3)))"
    "\<not> py_in ''1B'' (name (demo_store (demo_chain_m1c ! 3)))"
    by (simp_all add: demo_chain_def demo_chain_m1c_def demo_store_def demo_oe_def demo_tags)
  have n: "demo_chain ! 2 = 2" "demo_chain ! 3 = 3" "demo_chain ! 4 = 4"
    "demo_chain_m1c ! 2 = 2" "demo_chain_m1c ! 3 = 11" "demo_chain_m1c ! 4 = 4"
    by (simp_all add: demo_chain_def demo_chain_m1c_def)
  have th: "theta (demo_store 3) = 4416 / 100000" "theta (demo_store 11) = 2094 / 100000"
    by (simp_all add: demo_store_def demo_oe_def)
  note T = align_m1_sets [where s = demo_store and m1_distances = demo_m1_distances
      and b = "9865 / 10000" and a = "4630 / 10000" and E = demo_env]
  show ?thesis
    using T [where active_chain = demo_chain and kwargs = demo_kwargs]
      T [where active_chain = demo_chain and kwargs = demo_kwargs_given]
      T [where active_chain = demo_chain_m1c and kwargs = demo_kwargs_given]
      demo_m1_table len neq nm
    by (simp add: n th demo_kwargs_def demo_kwargs_given_def demo_ops)
qed

text \<open>
  Claim C10 (frame). Whatever the outcome of the call, normal or raising, on a chain
  whose third, fourth and fifth elements are different objects \<open>align_m1\<close> changes
  nothing but the third element's \<open>theta\<close> and \<open>next\<close>, the fourth element's \<open>next\<close>
  and the fifth element's \<open>distance_from_previous\<close>: every other object of the store
  is as before, and each of the three elements is as before once the named fields are
  put back. In particular the fourth element keeps its own \<open>theta\<close> and
  \<open>distance_from_previous\<close>.
\<close>

theorem align_m1_frame:
  assumes dist: "distinct (take 3 (drop 2 active_chain))"
  shows "(\<forall>h. h \<notin> set (take 3 (drop 2 active_chain)) \<longrightarrow>
            snd (align_m1 E active_chain m1_distances kwargs s) h = s h) \<and>
         (2 < length active_chain \<longrightarrow>
            (snd (align_m1 E active_chain m1_distances kwargs s) (active_chain ! 2))
              \<lparr>theta := theta (s (active_chain ! 2)), next_oe := next_oe (s (active_chain ! 2))\<rparr>
            = s (active_chain ! 2)) \<and>
         (3 < length active_chain \<longrightarrow>
            (snd (align_m1 E active_chain m1_distances kwargs s) (active_chain ! 3))
              \<lparr>next_oe := next_oe (s (active_chain ! 3))\<rparr>
            = s (active_chain ! 3) \<and>
            theta (snd (align_m1 E active_chain m1_distances kwargs s) (active_chain ! 3)) =
              theta (s (active_chain ! 3)) \<and>
            distance_from_previous
              (snd (align_m1 E active_chain m1_distances kwargs s) (active_chain ! 3)) =
              distance_from_previous (s (active_chain ! 3))) \<and>
         (4 < length active_chain \<longrightarrow>
            (snd (align_m1 E active_chain m1_distances kwargs s) (active_chain ! 4))
              \<lparr>distance_from_previous := distance_from_previous (s (active_chain ! 4))\<rparr>
            = s (active_chain ! 4))"
proof -
  have m2: "2 < length active_chain \<Longrightarrow> active_chain ! 2 \<in> set (take 3 (drop 2 active_chain))"
    using window_mem [of 0 active_chain] by simp
  have m3: "3 < length active_chain \<Longrightarrow> active_chain ! 3 \<in> set (take 3 (drop 2 active_chain))"
    using window_mem [of 1 active_chain] by simp
  have m4: "4 < length active_chain \<Longrightarrow> active_chain ! 4 \<in> set (take 3 (drop 2 active_chain))"
    using window_mem [of 2 active_chain] by simp
  have d23: "3 < length active_chain \<Longrightarrow> active_chain ! 2 \<noteq> active_chain ! 3"
    using window_distinct [OF dist, of 0 1] by simp
  have d24: "4 < length active_chain \<Longrightarrow> active_chain ! 2 \<noteq> active_chain ! 4"
    using window_distinct [OF dist, of 0 2] by simp
  have d34: "4 < length active_chain \<Longrightarrow> active_chain ! 3 \<noteq> active_chain ! 4"
    using window_distinct [OF dist, of 1 2] by simp
  consider "\<not> 3 < length active_chain" | "length active_chain = 4" | "4 < length active_chain"
    by linarith
  then show ?thesis
  proof cases
    case 1
    then show ?thesis
      by (simp add: align_m1_def item_def)
  next
    case 2
    then have l: "2 < length active_chain" "3 < length active_chain" "\<not> 4 < length active_chain"
      by simp_all
    show ?thesis
      using m2 d23 l by (auto simp: align_m1_def Let_def item_def)
  next
    case 3
    then have l: "2 < length active_chain" "3 < length active_chain" "4 < length active_chain"
      by simp_all
    from align_m1_store [OF 3, of E m1_distances kwargs s]
    obtain d where st: "snd (align_m1 E active_chain m1_distances kwargs s) =
           (let s2 = s(active_chain ! 2 := (s (active_chain ! 2))\<lparr>theta := theta (s (active_chain ! 3)), next_oe := Some (active_chain ! 3)\<rparr>);
                s3 = s2(active_chain ! 3 := (s2 (active_chain ! 3))\<lparr>next_oe := Some (active_chain ! 4)\<rparr>)
            in s3(active_chain ! 4 := (s3 (active_chain ! 4))\<lparr>distance_from_previous := d\<rparr>))"
      by blast
    show ?thesis
      unfolding st using m2 m3 m4 d23 d24 d34 l
      by (auto simp: Let_def)
  qed
qed


text \<open>The theorem on the concrete beamline.\<close>

theorem align_m1_frame_witness:
  "distinct (take 3 (drop 2 demo_chain)) \<and>
   snd (align_m1 demo_env demo_chain demo_m1_distances demo_kwargs demo_store) 0 = demo_store 0 \<and>
   snd (align_m1 demo_env demo_chain demo_m1_distances demo_kwargs demo_store) 1 = demo_store 1 \<and>
   snd (align_m1 demo_env demo_chain demo_m1_distances demo_kwargs demo_store) 5 = demo_store 5 \<and>
   (snd (align_m1 demo_env demo_chain demo_m1_distances demo_kwargs demo_store) 2)
     \<lparr>theta := theta (demo_store 2), next_oe := next_oe (demo_store 2)\<rparr> = demo_store 2 \<and>
   (snd (align_m1 demo_env demo_chain demo_m1_distances demo_kwargs demo_store) 3)
     \<lparr>next_oe := next_oe (demo_store 3)\<rparr> = demo_store 3 \<and>
   theta (snd (align_m1 demo_env demo_chain demo_m1_distances demo_kwargs demo_store) 3) =
     theta (demo_store 3) \<and>
   distance_from_previous
     (snd (align_m1 demo_env demo_chain demo_m1_distances demo_kwargs demo_store) 3) =
     distance_from_previous (demo_store 3) \<and>
   (snd (align_m1 demo_env demo_chain demo_m1_distances demo_kwargs demo_store) 4)
     \<lparr>distance_from_previous := distance_from_previous (demo_store 4)\<rparr> = demo_store 4"
proof -
  have d: "distinct (take 3 (drop 2 demo_chain))" by (simp add: demo_chain_def)
  have w: "take 3 (drop 2 demo_chain) = [2, 3, 4]" by (simp add: demo_chain_def)
  have n: "demo_chain ! 2 = 2" "demo_chain ! 3 = 3" "demo_chain ! 4 = 4"
    "length demo_chain = 9"
    by (simp_all add: demo_chain_def)
  show ?thesis
    using align_m1_frame [OF d, of demo_env demo_m1_distances demo_kwargs demo_store] d
    unfolding w n by simp
qed

subsection \<open>The monochromator step\<close>

text \<open>
  Claim C1. When the scan of \<open>align_mono\<close> locates the grating at position \<open>p\<close>, the
  solver returns a dictionary \<open>gd\<close>, and two different elements follow the grating in
  the chain, \<open>align_mono\<close> returns normally, the element at \<open>p + 1\<close> has \<open>theta\<close> equal to
  half the deviation and \<open>distance_from_previous\<close> equal to
  \<open>GM2_trans_dist / sin(deviation)\<close>, and the element at \<open>p + 2\<close> has
  \<open>distance_from_previous\<close> equal to \<open>GM3_proj_dist - GM2_trans_dist / tan(deviation)\<close>.
\<close>

theorem align_mono_sets:
  assumes sc: "scan_chain s active_chain 0 None = Some (grating, p)"
    and at: "grating_attrs (s grating) = Some (order_align, line_density)"
    and so: "align_grating E alignment_condition alignment_condition_value wavelength
               order_align line_density (s grating) = Inr (th, u, gd)"
    and l: "p + 2 < length active_chain"
    and ne: "active_chain ! (p + 1) \<noteq> active_chain ! (p + 2)"
  shows "fst (align_mono E active_chain wavelength alignment_condition
                alignment_condition_value GM2_trans_dist GM3_proj_dist s) = None \<and>
         theta (snd (align_mono E active_chain wavelength alignment_condition
                alignment_condition_value GM2_trans_dist GM3_proj_dist s)
                  (active_chain ! (p + 1))) = fdiv E (deviation gd) (of_pyint E 2) \<and>
         distance_from_previous (snd (align_mono E active_chain wavelength alignment_condition
                alignment_condition_value GM2_trans_dist GM3_proj_dist s)
                  (active_chain ! (p + 1))) = fdiv E GM2_trans_dist (np_sin E (deviation gd)) \<and>
         distance_from_previous (snd (align_mono E active_chain wavelength alignment_condition
                alignment_condition_value GM2_trans_dist GM3_proj_dist s)
                  (active_chain ! (p + 2))) =
           fsub E GM3_proj_dist (fdiv E GM2_trans_dist (np_tan E (deviation gd)))"
  using ne by (simp add: align_mono_located [OF sc at so l] Let_def)

text \<open>The theorem on the concrete beamline, for a fixed deviation of 24 mrad.\<close>

theorem align_mono_sets_witness:
  "scan_chain demo_store demo_chain 0 None = Some (4, 4) \<and>
   theta (snd (align_mono demo_env demo_chain (3/10^9) ''omega'' (12/1000) (20/1000) (700/1000)
                 demo_store) 5) = 12 / 1000 \<and>
   distance_from_previous (snd (align_mono demo_env demo_chain (3/10^9) ''omega'' (12/1000)
                 (20/1000) (700/1000) demo_store) 5) = (20/1000) / sin (24 / 1000) \<and>
   distance_from_previous (snd (align_mono demo_env demo_chain (3/10^9) ''omega'' (12/1000)
                 (20/1000) (700/1000) demo_store) 6) = 700/1000 - (20/1000) / tan (24 / 1000)"
proof -
  have sc: "scan_chain demo_store demo_chain 0 None = Some (4, 4)"
    by (simp add: demo_chain_def demo_store_def demo_oe_def demo_names)
  have at: "grating_attrs (demo_store 4) = Some (1, 1600000)"
    by (simp add: demo_store_def demo_oe_def)
  have so: "align_grating demo_env ''omega'' (12/1000) (3/10^9) 1 1600000 (demo_store 4) =
              Inr (12/1000, engine_state (demo_store 4),
                   \<lparr>alpha = 12/1000, beta = 12/1000, alpha_deg = 12/1000, beta_deg = 12/1000,
                    deviation = 2 * (12/1000)\<rparr>)"
    by (simp add: demo_env_def)
  have l: "4 + 2 < length demo_chain" by (simp add: demo_chain_def)
  have ne: "demo_chain ! (4 + 1) \<noteq> demo_chain ! (4 + 2)" by (simp add: demo_chain_def)
  show ?thesis
    using align_mono_sets [OF sc at so l ne, of "20/1000" "700/1000"] sc
    by (simp add: demo_chain_def demo_env_def)
qed

subsection \<open>More auxiliary facts\<close>

lemma align_mono_no_match:
  assumes "scan_chain s c 0 None = None"
  shows "align_mono E c w cond v gm2 gm3 s = (Some (ValueError no_grating_msg), s)"
  using assms by (simp add: align_mono_def)

lemma align_mono_normal:
  assumes "fst (align_mono E c w cond v gm2 gm3 s) = None"
  shows "\<exists>g p k n th u gd. scan_chain s c 0 None = Some (g, p) \<and>
           grating_attrs (s g) = Some (k, n) \<and>
           align_grating E cond v w k n (s g) = Inr (th, u, gd) \<and> p + 2 < length c"
  using assms
  by (auto simp: align_mono_def Let_def item_def split: option.splits sum.splits if_splits)

lemma align_undulator_name:
  "name (snd (align_undulator E c w kw s) h) = name (s h)"
  by (simp add: align_undulator_def Let_def split: sum.splits)

lemma align_m1_name:
  "name (snd (align_m1 E c m kw s) h) = name (s h)"
  by (simp add: align_m1_def Let_def split: sum.splits)

lemma scan_chain_names:
  "(\<And>h. name (t h) = name (s h)) \<Longrightarrow> scan_chain t c n found = scan_chain s c n found"
  by (induction c arbitrary: n found) simp_all

lemma align_call_no_match:
  assumes no: "scan_chain s c 0 None = None"
    and u: "align_undulator E c ew kw s = (None, s1)"
    and m: "align_m1 E c md kw s1 = (None, s2)"
  shows "align_call E c aw ew cond v md gm2 gm3 kw s = (Some (ValueError no_grating_msg), s2)"
proof -
  have "name (s2 h) = name (s h)" for h
    using align_undulator_name [of E c ew kw s h] align_m1_name [of E c md kw s1 h] u m
    by simp
  then have "scan_chain s2 c 0 None = scan_chain s c 0 None"
    by (rule scan_chain_names)
  then have "align_mono E c aw cond v gm2 gm3 s2 = (Some (ValueError no_grating_msg), s2)"
    using no by (simp add: align_mono_no_match)
  then show ?thesis
    by (simp add: align_call_def u m)
qed

lemma demo_keyword:
  "\<not> py_in ''grating'' (lower ''U65'')" "\<not> py_in ''grating'' (lower ''pupil'')"
  "\<not> py_in ''grating'' (lower ''M1A'')" "\<not> py_in ''grating'' (lower ''M1B'')"
  "\<not> py_in ''grating'' (lower ''Reseau_2400'')" "\<not> py_in ''grating'' (lower ''M2'')"
  "\<not> py_in ''grating'' (lower ''M3'')" "\<not> py_in ''grating'' (lower ''mono_foc_hor'')"
  "\<not> py_in ''grating'' (lower ''mono_foc_ver'')" "py_in ''reseau'' (lower ''Reseau_2400'')"
  "py_in ''grating'' (lower ''grating_1600'')"
  by code_simp+

lemma demo_solver:
  "align_grating demo_env ''omega'' (12 / 1000) w k n e =
     Inr (12 / 1000, engine_state e,
          \<lparr>alpha = 12 / 1000, beta = 12 / 1000, alpha_deg = 12 / 1000, beta_deg = 12 / 1000,
           deviation = 2 * (12 / 1000)\<rparr>)"
  by (simp add: demo_env_def)

lemma demo_bare_undulator:
  "fst (align_undulator demo_env demo_chain_bare w demo_kwargs demo_store) = None"
  "theta (snd (align_undulator demo_env demo_chain_bare w demo_kwargs demo_store) 3) =
     theta (demo_store 3)"
  by (simp_all add: align_undulator_def item_def demo_chain_bare_def demo_store_def demo_oe_def
        demo_tags demo_table demo_kwargs_def kwargs_get_def Let_def demo_env_def iloc0_def)

lemma demo_bare_m1:
  assumes "theta (t 3) = theta (demo_store 3)"
  shows "fst (align_m1 demo_env demo_chain_bare demo_m1_distances demo_kwargs t) = None"
    and "theta (snd (align_m1 demo_env demo_chain_bare demo_m1_distances demo_kwargs t) 2) =
           4416 / 100000"
  using assms
  by (simp_all add: align_m1_def item_def demo_chain_bare_def demo_store_def demo_oe_def
        item2_def demo_m1_distances_def demo_kwargs_def kwargs_get_def Let_def demo_tags)

lemma demo_bare_scan: "scan_chain demo_store demo_chain_bare 0 None = None"
  by (simp add: demo_chain_bare_def demo_store_def demo_oe_def demo_names)


lemma demo_attrs:
  "grating_attrs (demo_store 9) = Some (1, 2400000)"
  "grating_attrs (demo_store 4) = Some (1, 1600000)"
  by (simp_all add: demo_store_def demo_oe_def)

lemma align_m1_footprint:
  assumes dist: "distinct (take 3 (drop 2 c))"
  shows "(\<forall>h. h \<notin> set (take 3 (drop 2 c)) \<longrightarrow> snd (align_m1 E c m kw s) h = s h) \<and>
         (2 < length c \<longrightarrow>
            (snd (align_m1 E c m kw s) (c ! 2))
              \<lparr>theta := theta (s (c ! 2)), next_oe := next_oe (s (c ! 2))\<rparr> = s (c ! 2)) \<and>
         (3 < length c \<longrightarrow>
            (snd (align_m1 E c m kw s) (c ! 3))\<lparr>next_oe := next_oe (s (c ! 3))\<rparr> = s (c ! 3)) \<and>
         (4 < length c \<longrightarrow>
            (snd (align_m1 E c m kw s) (c ! 4))
              \<lparr>distance_from_previous := distance_from_previous (s (c ! 4))\<rparr> = s (c ! 4))"
proof -
  have m2: "2 < length c \<Longrightarrow> c ! 2 \<in> set (take 3 (drop 2 c))"
    using window_mem [of 0 c] by simp
  have m3: "3 < length c \<Longrightarrow> c ! 3 \<in> set (take 3 (drop 2 c))"
    using window_mem [of 1 c] by simp
  have m4: "4 < length c \<Longrightarrow> c ! 4 \<in> set (take 3 (drop 2 c))"
    using window_mem [of 2 c] by simp
  have d23: "3 < length c \<Longrightarrow> c ! 2 \<noteq> c ! 3"
    using window_distinct [OF dist, of 0 1] by simp
  have d24: "4 < length c \<Longrightarrow> c ! 2 \<noteq> c ! 4"
    using window_distinct [OF dist, of 0 2] by simp
  have d34: "4 < length c \<Longrightarrow> c ! 3 \<noteq> c ! 4"
    using window_distinct [OF dist, of 1 2] by simp
  consider "\<not> 3 < length c" | "length c = 4" | "4 < length c"
    by linarith
  then show ?thesis
  proof cases
    case 1
    then show ?thesis
      by (simp add: align_m1_def item_def)
  next
    case 2
    then have l: "2 < length c" "3 < length c" "\<not> 4 < length c"
      by simp_all
    show ?thesis
      using m2 d23 l by (auto simp: align_m1_def Let_def item_def)
  next
    case 3
    then have l: "2 < length c" "3 < length c" "4 < length c"
      by simp_all
    from align_m1_store [OF 3, of E m kw s]
    obtain d where st: "snd (align_m1 E c m kw s) =
           (let s2 = s(c ! 2 := (s (c ! 2))\<lparr>theta := theta (s (c ! 3)), next_oe := Some (c ! 3)\<rparr>);
                s3 = s2(c ! 3 := (s2 (c ! 3))\<lparr>next_oe := Some (c ! 4)\<rparr>)
            in s3(c ! 4 := (s3 (c ! 4))\<lparr>distance_from_previous := d\<rparr>))"
      by blast
    show ?thesis
      unfolding st using m2 m3 m4 d23 d24 d34 l
      by (auto simp: Let_def)
  qed
qed

lemma align_undulator_outside:
  assumes "h \<notin> set (take 2 c)"
  shows "snd (align_undulator E c w kw s) h = s h"
proof -
  have "h \<noteq> c ! 0" if "0 < length c"
    using assms that by (cases c) auto
  moreover have "h \<noteq> c ! 1" if "1 < length c"
  proof -
    from that obtain a b r where "c = a # b # r"
      by (cases c; cases "tl c") auto
    then show ?thesis using assms by auto
  qed
  ultimately show ?thesis
    by (auto simp: align_undulator_def Let_def item_def split: sum.splits)
qed

lemma align_undulator_fields:
  assumes "1 < length c \<Longrightarrow> c ! 0 \<noteq> c ! 1"
  shows "(0 < length c \<longrightarrow>
            (snd (align_undulator E c w kw s) (c ! 0))
              \<lparr>engine_state := engine_state (s (c ! 0))\<rparr> = s (c ! 0)) \<and>
         (1 < length c \<longrightarrow>
            (snd (align_undulator E c w kw s) (c ! 1))
              \<lparr>distance_from_previous := distance_from_previous (s (c ! 1))\<rparr> = s (c ! 1))"
  using assms
  by (auto simp: align_undulator_def Let_def item_def split: sum.splits)

lemma align_call_no_match_outcome:
  assumes no: "scan_chain s c 0 None = None"
  shows "fst (align_call E c aw ew cond v md gm2 gm3 kw s) \<noteq> None \<and>
         snd (align_call E c aw ew cond v md gm2 gm3 kw s) =
           (if fst (align_undulator E c ew kw s) = None
            then snd (align_m1 E c md kw (snd (align_undulator E c ew kw s)))
            else snd (align_undulator E c ew kw s))"
proof -
  let ?u = "align_undulator E c ew kw s"
  let ?m = "align_m1 E c md kw (snd ?u)"
  show ?thesis
  proof (cases "fst ?u")
    case (Some e)
    then have "?u = (Some e, snd ?u)" by (simp add: prod_eq_iff)
    then have "align_call E c aw ew cond v md gm2 gm3 kw s = (Some e, snd ?u)"
      unfolding align_call_def by (metis (no_types, lifting) case_prod_conv option.simps(5))
    then show ?thesis using Some by simp
  next
    case None
    then have u: "?u = (None, snd ?u)" by (simp add: prod_eq_iff)
    show ?thesis
    proof (cases "fst ?m")
      case (Some e)
      then have "?m = (Some e, snd ?m)" by (simp add: prod_eq_iff)
      then have "align_call E c aw ew cond v md gm2 gm3 kw s = (Some e, snd ?m)"
        unfolding align_call_def using u
        by (metis (no_types, lifting) case_prod_conv option.simps(4,5))
      then show ?thesis using None by simp
    next
      case n: None
      then have m: "?m = (None, snd ?m)" by (simp add: prod_eq_iff)
      from align_call_no_match [OF no u m]
      show ?thesis using None by simp
    qed
  qed
qed

lemma align_m1_outside:
  assumes "h \<notin> set (take 3 (drop 2 c))"
  shows "snd (align_m1 E c m kw s) h = s h"
proof -
  have "h \<noteq> c ! 2" if "2 < length c"
    using assms window_mem [of 0 c] that by auto
  moreover have "h \<noteq> c ! 3" if "3 < length c"
    using assms window_mem [of 1 c] that by auto
  moreover have "h \<noteq> c ! 4" if "4 < length c"
    using assms window_mem [of 2 c] that by auto
  ultimately show ?thesis
    by (auto simp: align_m1_def Let_def item_def split: sum.splits)
qed

lemma take5_split: "take 5 c = take 2 c @ take 3 (drop 2 c)"
  using take_add [of 2 3 c] by simp

lemma head_mem:
  assumes "i < 2" "i < length c"
  shows "c ! i \<in> set (take 2 c)"
proof -
  have "i < length (take 2 c)" using assms by simp
  then have "take 2 c ! i \<in> set (take 2 c)" by (rule nth_mem)
  then show ?thesis using assms by simp
qed

subsection \<open>Which element the monochromator step aligns\<close>

text \<open>
  Claim C8. The scan accepts a name containing \<open>reseau\<close> as well as one containing
  \<open>grating\<close>, letter case ignored, and it keeps the last match: when the element at
  position \<open>p\<close> matches and no later element does, that element is the one located,
  whatever matched before it. On a chain of different objects in which two elements
  follow it, with the solver returning, the solver's angle goes to that element, the
  derived angle and distances go to the elements at \<open>p + 1\<close> and \<open>p + 2\<close>, and every
  element before \<open>p\<close>, an earlier match included, is left as it was.
\<close>

theorem align_mono_last_match:
  assumes d: "distinct active_chain"
    and l: "p + 2 < length active_chain"
    and m: "py_in ''reseau'' (lower (name (s (active_chain ! p)))) \<or>
            py_in ''grating'' (lower (name (s (active_chain ! p))))"
    and last: "\<And>q. p < q \<Longrightarrow> q < length active_chain \<Longrightarrow>
            \<not> (py_in ''reseau'' (lower (name (s (active_chain ! q)))) \<or>
               py_in ''grating'' (lower (name (s (active_chain ! q)))))"
    and at: "grating_attrs (s (active_chain ! p)) = Some (order_align, line_density)"
    and so: "align_grating E alignment_condition alignment_condition_value wavelength
               order_align line_density (s (active_chain ! p)) = Inr (th, u, gd)"
  shows "scan_chain s active_chain 0 None = Some (active_chain ! p, p) \<and>
         fst (align_mono E active_chain wavelength alignment_condition
                alignment_condition_value GM2_trans_dist GM3_proj_dist s) = None \<and>
         theta (snd (align_mono E active_chain wavelength alignment_condition
                alignment_condition_value GM2_trans_dist GM3_proj_dist s)
                  (active_chain ! p)) = th \<and>
         theta (snd (align_mono E active_chain wavelength alignment_condition
                alignment_condition_value GM2_trans_dist GM3_proj_dist s)
                  (active_chain ! (p + 1))) = fdiv E (deviation gd) (of_pyint E 2) \<and>
         distance_from_previous (snd (align_mono E active_chain wavelength alignment_condition
                alignment_condition_value GM2_trans_dist GM3_proj_dist s)
                  (active_chain ! (p + 1))) = fdiv E GM2_trans_dist (np_sin E (deviation gd)) \<and>
         distance_from_previous (snd (align_mono E active_chain wavelength alignment_condition
                alignment_condition_value GM2_trans_dist GM3_proj_dist s)
                  (active_chain ! (p + 2))) =
           fsub E GM3_proj_dist (fdiv E GM2_trans_dist (np_tan E (deviation gd))) \<and>
         (\<forall>q < p. snd (align_mono E active_chain wavelength alignment_condition
                alignment_condition_value GM2_trans_dist GM3_proj_dist s)
                  (active_chain ! q) = s (active_chain ! q))"
proof -
  have lp: "p < length active_chain" using l by simp
  have sc: "scan_chain s active_chain 0 None = Some (active_chain ! p, 0 + p)"
    using lp m last by (intro scan_chain_last) (simp_all add: is_grating_name_def)
  then have sc': "scan_chain s active_chain 0 None = Some (active_chain ! p, p)" by simp
  have ne: "active_chain ! i \<noteq> active_chain ! j"
    if "i < length active_chain" "j < length active_chain" "i \<noteq> j" for i j
    using that nth_eq_iff_index_eq [OF d] by blast
  have n1: "active_chain ! p \<noteq> active_chain ! (p + 1)"
    using ne [of p "p + 1"] l by simp
  have n2: "active_chain ! p \<noteq> active_chain ! (p + 2)"
    using ne [of p "p + 2"] l by simp
  have n3: "active_chain ! (p + 1) \<noteq> active_chain ! (p + 2)"
    using ne [of "p + 1" "p + 2"] l by simp
  have nq: "active_chain ! q \<noteq> active_chain ! p \<and> active_chain ! q \<noteq> active_chain ! (p + 1)
            \<and> active_chain ! q \<noteq> active_chain ! (p + 2)" if "q < p" for q
    using ne [of q p] ne [of q "p + 1"] ne [of q "p + 2"] that l by simp
  show ?thesis
    using n1 n2 n3 nq sc'
    by (simp add: align_mono_located [OF sc' at so l] Let_def)
qed

text \<open>
  The theorem on a chain with two gratings in a row, \<open>grating_1600\<close> then
  \<open>Reseau_2400\<close>: the second one is aligned and the first one is untouched.
\<close>

theorem align_mono_last_match_witness:
  "distinct demo_chain_two \<and>
   py_in ''grating'' (lower (name (demo_store (demo_chain_two ! 4)))) \<and>
   py_in ''reseau'' (lower (name (demo_store (demo_chain_two ! 5)))) \<and>
   scan_chain demo_store demo_chain_two 0 None = Some (9, 5) \<and>
   fst (align_mono demo_env demo_chain_two (3 / 10 ^ 9) ''omega'' (12 / 1000) (20 / 1000)
          (700 / 1000) demo_store) = None \<and>
   theta (snd (align_mono demo_env demo_chain_two (3 / 10 ^ 9) ''omega'' (12 / 1000)
          (20 / 1000) (700 / 1000) demo_store) 9) = 12 / 1000 \<and>
   theta (snd (align_mono demo_env demo_chain_two (3 / 10 ^ 9) ''omega'' (12 / 1000)
          (20 / 1000) (700 / 1000) demo_store) 5) = 12 / 1000 \<and>
   distance_from_previous (snd (align_mono demo_env demo_chain_two (3 / 10 ^ 9) ''omega''
          (12 / 1000) (20 / 1000) (700 / 1000) demo_store) 5) = (20 / 1000) / sin (24 / 1000) \<and>
   distance_from_previous (snd (align_mono demo_env demo_chain_two (3 / 10 ^ 9) ''omega''
          (12 / 1000) (20 / 1000) (700 / 1000) demo_store) 6) =
     700 / 1000 - (20 / 1000) / tan (24 / 1000) \<and>
   snd (align_mono demo_env demo_chain_two (3 / 10 ^ 9) ''omega'' (12 / 1000) (20 / 1000)
          (700 / 1000) demo_store) 4 = demo_store 4"
proof -
  have d: "distinct demo_chain_two" by (simp add: demo_chain_two_def)
  have l: "5 + 2 < length demo_chain_two" by (simp add: demo_chain_two_def)
  have m4: "py_in ''grating'' (lower (name (demo_store (demo_chain_two ! 4))))"
    by (simp add: demo_chain_two_def demo_store_def demo_oe_def demo_keyword)
  have m5: "py_in ''reseau'' (lower (name (demo_store (demo_chain_two ! 5))))"
    by (simp add: demo_chain_two_def demo_store_def demo_oe_def demo_keyword)
  have last: "\<not> (py_in ''reseau'' (lower (name (demo_store (demo_chain_two ! q)))) \<or>
                 py_in ''grating'' (lower (name (demo_store (demo_chain_two ! q)))))"
    if "5 < q" "q < length demo_chain_two" for q
  proof -
    from that have "q = 6 \<or> q = 7 \<or> q = 8 \<or> q = 9"
      by (auto simp: demo_chain_two_def)
    then show ?thesis
      using demo_names
      by (auto simp: demo_chain_two_def demo_store_def demo_oe_def is_grating_name_def)
  qed
  have at: "grating_attrs (demo_store (demo_chain_two ! 5)) = Some (1, 2400000)"
    by (simp add: demo_chain_two_def demo_store_def demo_oe_def)
  have n: "demo_chain_two ! 5 = 9" "demo_chain_two ! 6 = 5" "demo_chain_two ! 7 = 6"
    "demo_chain_two ! 4 = 4"
    by (simp_all add: demo_chain_two_def)
  have so: "align_grating demo_env ''omega'' (12 / 1000) (3 / 10 ^ 9) 1 2400000
              (demo_store (demo_chain_two ! 5)) =
            Inr (12 / 1000, engine_state (demo_store (demo_chain_two ! 5)),
                 \<lparr>alpha = 12 / 1000, beta = 12 / 1000, alpha_deg = 12 / 1000,
                  beta_deg = 12 / 1000, deviation = 2 * (12 / 1000)\<rparr>)"
    by (rule demo_solver)
  have m: "py_in ''reseau'' (lower (name (demo_store (demo_chain_two ! 5)))) \<or>
           py_in ''grating'' (lower (name (demo_store (demo_chain_two ! 5))))"
    using m5 by simp
  note T = align_mono_last_match [where active_chain = demo_chain_two and p = 5
      and s = demo_store and E = demo_env and GM2_trans_dist = "20 / 1000"
      and GM3_proj_dist = "700 / 1000", OF d l m last at so]
  from T have "snd (align_mono demo_env demo_chain_two (3 / 10 ^ 9) ''omega'' (12 / 1000)
      (20 / 1000) (700 / 1000) demo_store) (demo_chain_two ! 4) = demo_store (demo_chain_two ! 4)"
    by simp
  with T show ?thesis
    using d m4 m5 by (simp add: n demo_ops)
qed

subsection \<open>When the monochromator step raises\<close>




subsection \<open>Alignment of a chain without a grating\<close>

text \<open>
  Claim C4, as stated, fails: on the concrete beamline without its grating
  \<open>align_call\<close> raises the configuration error, but M1A, the third element of the
  chain, has by then received the grazing angle of M1B.
\<close>

theorem align_call_no_grating_counterexample:
  "scan_chain demo_store demo_chain_bare 0 None = None \<and>
   \<not> has_grating_keyword demo_store demo_chain_bare \<and>
   fst (align_call demo_env demo_chain_bare (3 / 10 ^ 9) (3 / 10 ^ 9) ''omega'' (12 / 1000)
          demo_m1_distances (20 / 1000) (700 / 1000) demo_kwargs demo_store) =
     Some (ValueError no_grating_msg) \<and>
   theta (snd (align_call demo_env demo_chain_bare (3 / 10 ^ 9) (3 / 10 ^ 9) ''omega''
          (12 / 1000) demo_m1_distances (20 / 1000) (700 / 1000) demo_kwargs demo_store)
            (demo_chain_bare ! 2)) \<noteq>
     theta (demo_store (demo_chain_bare ! 2))"
proof -
  let ?u = "align_undulator demo_env demo_chain_bare (3 / 10 ^ 9) demo_kwargs demo_store"
  let ?m = "align_m1 demo_env demo_chain_bare demo_m1_distances demo_kwargs (snd ?u)"
  have u: "?u = (None, snd ?u)"
    using demo_bare_undulator(1) [of "3 / 10 ^ 9"] by (simp add: prod_eq_iff)
  have mf: "fst ?m = None"
    using demo_bare_undulator(2) [of "3 / 10 ^ 9"] by (rule demo_bare_m1(1))
  have m: "?m = (None, snd ?m)"
    using mf by (simp add: prod_eq_iff)
  have c: "align_call demo_env demo_chain_bare (3 / 10 ^ 9) (3 / 10 ^ 9) ''omega'' (12 / 1000)
             demo_m1_distances (20 / 1000) (700 / 1000) demo_kwargs demo_store =
           (Some (ValueError no_grating_msg), snd ?m)"
    using demo_bare_scan u m by (rule align_call_no_match)
  have k: "\<not> has_grating_keyword demo_store demo_chain_bare"
    by (simp add: has_grating_keyword_def demo_chain_bare_def demo_store_def demo_oe_def
          demo_keyword)
  have n: "demo_chain_bare ! 2 = 2" by (simp add: demo_chain_bare_def)
  have "theta (snd ?m 2) = 4416 / 100000"
    using demo_bare_undulator(2) [of "3 / 10 ^ 9"] by (rule demo_bare_m1(2))
  moreover have "theta (demo_store 2) = 0"
    by (simp add: demo_store_def demo_oe_def)
  ultimately have "theta (snd ?m 2) \<noteq> theta (demo_store 2)"
    by simp
  then show ?thesis
    unfolding c n using demo_bare_scan k by simp
qed

text \<open>
  Claim C4, amended. On a chain with no element whose name contains \<open>reseau\<close> or
  \<open>grating\<close>, \<open>align_mono\<close> raises the configuration error and leaves the store as it
  found it. \<open>align_call\<close> always raises on such a chain, and it raises the
  configuration error, with the store as the undulator and M1 steps left it, when
  those two steps return normally. Whatever the outcome, every object outside the
  first five elements of the chain is as before the call, and when the first five
  elements are different objects nothing of them has changed but what the two steps
  assign: the engine-side state of the source, the second element's
  \<open>distance_from_previous\<close>, the third element's \<open>theta\<close> and \<open>next\<close>, the fourth
  element's \<open>next\<close> and the fifth element's \<open>distance_from_previous\<close>.
\<close>

theorem align_call_no_grating:
  assumes no: "\<forall>h \<in> set active_chain. \<not> is_grating_name (name (s h))"
  shows "align_mono E active_chain alignment_wvl alignment_condition
           alignment_condition_value GM2_trans_dist GM3_proj_dist s =
           (Some (ValueError no_grating_msg), s) \<and>
         fst (align_call E active_chain alignment_wvl emission_wvl alignment_condition
              alignment_condition_value m1_distances GM2_trans_dist GM3_proj_dist kwargs s)
           \<noteq> None \<and>
         (\<forall>s1 s2. align_undulator E active_chain emission_wvl kwargs s = (None, s1) \<and>
                  align_m1 E active_chain m1_distances kwargs s1 = (None, s2) \<longrightarrow>
            align_call E active_chain alignment_wvl emission_wvl alignment_condition
              alignment_condition_value m1_distances GM2_trans_dist GM3_proj_dist kwargs s =
              (Some (ValueError no_grating_msg), s2)) \<and>
         (\<forall>h. h \<notin> set (take 5 active_chain) \<longrightarrow>
            snd (align_call E active_chain alignment_wvl emission_wvl alignment_condition
              alignment_condition_value m1_distances GM2_trans_dist GM3_proj_dist kwargs s) h =
            s h) \<and>
         (distinct (take 5 active_chain) \<longrightarrow>
            (0 < length active_chain \<longrightarrow>
               (snd (align_call E active_chain alignment_wvl emission_wvl alignment_condition
                  alignment_condition_value m1_distances GM2_trans_dist GM3_proj_dist kwargs s)
                  (active_chain ! 0))
                 \<lparr>engine_state := engine_state (s (active_chain ! 0))\<rparr> = s (active_chain ! 0)) \<and>
            (1 < length active_chain \<longrightarrow>
               (snd (align_call E active_chain alignment_wvl emission_wvl alignment_condition
                  alignment_condition_value m1_distances GM2_trans_dist GM3_proj_dist kwargs s)
                  (active_chain ! 1))
                 \<lparr>distance_from_previous := distance_from_previous (s (active_chain ! 1))\<rparr> =
               s (active_chain ! 1)) \<and>
            (2 < length active_chain \<longrightarrow>
               (snd (align_call E active_chain alignment_wvl emission_wvl alignment_condition
                  alignment_condition_value m1_distances GM2_trans_dist GM3_proj_dist kwargs s)
                  (active_chain ! 2))
                 \<lparr>theta := theta (s (active_chain ! 2)),
                  next_oe := next_oe (s (active_chain ! 2))\<rparr> = s (active_chain ! 2)) \<and>
            (3 < length active_chain \<longrightarrow>
               (snd (align_call E active_chain alignment_wvl emission_wvl alignment_condition
                  alignment_condition_value m1_distances GM2_trans_dist GM3_proj_dist kwargs s)
                  (active_chain ! 3))
                 \<lparr>next_oe := next_oe (s (active_chain ! 3))\<rparr> = s (active_chain ! 3)) \<and>
            (4 < length active_chain \<longrightarrow>
               (snd (align_call E active_chain alignment_wvl emission_wvl alignment_condition
                  alignment_condition_value m1_distances GM2_trans_dist GM3_proj_dist kwargs s)
                  (active_chain ! 4))
                 \<lparr>distance_from_previous := distance_from_previous (s (active_chain ! 4))\<rparr> =
               s (active_chain ! 4)))"
proof -
  let ?c = active_chain
  let ?sA = "snd (align_undulator E ?c emission_wvl kwargs s)"
  let ?sB = "snd (align_m1 E ?c m1_distances kwargs ?sA)"
  let ?s' = "snd (align_call E ?c alignment_wvl emission_wvl alignment_condition
               alignment_condition_value m1_distances GM2_trans_dist GM3_proj_dist kwargs s)"
  have sc: "scan_chain s ?c 0 None = None"
    using no by (simp add: scan_chain_None_iff)
  note out = align_call_no_match_outcome [OF sc, of E alignment_wvl emission_wvl
      alignment_condition alignment_condition_value m1_distances GM2_trans_dist GM3_proj_dist
      kwargs]
  from out have s': "?s' = ?sA \<or> ?s' = ?sB" by (simp split: if_splits)
  have outside: "?sA h = s h \<and> ?sB h = s h" if "h \<notin> set (take 5 ?c)" for h
  proof -
    from that have a: "h \<notin> set (take 2 ?c)" and b: "h \<notin> set (take 3 (drop 2 ?c))"
      by (simp_all add: take5_split)
    show ?thesis
      using align_undulator_outside [OF a, of E emission_wvl kwargs s]
        align_m1_outside [OF b, of E m1_distances kwargs ?sA] by simp
  qed
  have fields: "(0 < length ?c \<longrightarrow>
        (t (?c ! 0))\<lparr>engine_state := engine_state (s (?c ! 0))\<rparr> = s (?c ! 0)) \<and>
      (1 < length ?c \<longrightarrow>
        (t (?c ! 1))\<lparr>distance_from_previous := distance_from_previous (s (?c ! 1))\<rparr> =
          s (?c ! 1)) \<and>
      (2 < length ?c \<longrightarrow>
        (t (?c ! 2))\<lparr>theta := theta (s (?c ! 2)), next_oe := next_oe (s (?c ! 2))\<rparr> =
          s (?c ! 2)) \<and>
      (3 < length ?c \<longrightarrow> (t (?c ! 3))\<lparr>next_oe := next_oe (s (?c ! 3))\<rparr> = s (?c ! 3)) \<and>
      (4 < length ?c \<longrightarrow>
        (t (?c ! 4))\<lparr>distance_from_previous := distance_from_previous (s (?c ! 4))\<rparr> =
          s (?c ! 4))"
    if d: "distinct (take 5 ?c)" and t: "t = ?sA \<or> t = ?sB" for t
  proof -
    from d have d2: "distinct (take 2 ?c)" and d3: "distinct (take 3 (drop 2 ?c))"
      and dj: "set (take 2 ?c) \<inter> set (take 3 (drop 2 ?c)) = {}"
      by (simp_all add: take5_split)
    have c01: "?c ! 0 \<noteq> ?c ! 1" if "1 < length ?c"
    proof -
      from that obtain a b r where "?c = a # b # r"
        by (cases ?c; cases "tl ?c") auto
      then show ?thesis using d2 by auto
    qed
    note uf = align_undulator_fields [where c = ?c and E = E and w = emission_wvl
        and kw = kwargs and s = s, OF c01]
    note mf = align_m1_footprint [where c = ?c and E = E and m = m1_distances
        and kw = kwargs and s = ?sA, OF d3]
    have lowB: "?sB (?c ! i) = ?sA (?c ! i)" if "i < 2" "i < length ?c" for i
    proof -
      have "?c ! i \<in> set (take 2 ?c)" using that by (rule head_mem)
      with dj have "?c ! i \<notin> set (take 3 (drop 2 ?c))" by blast
      then show ?thesis by (rule align_m1_outside)
    qed
    have highA: "?sA (?c ! (2 + i)) = s (?c ! (2 + i))" if "i < 3" "2 + i < length ?c" for i
    proof -
      have "?c ! (2 + i) \<in> set (take 3 (drop 2 ?c))" using that by (rule window_mem)
      with dj have "?c ! (2 + i) \<notin> set (take 2 ?c)" by blast
      then show ?thesis by (rule align_undulator_outside)
    qed
    have h2: "?sA (?c ! 2) = s (?c ! 2)" if "2 < length ?c" using highA [of 0] that by simp
    have h3: "?sA (?c ! 3) = s (?c ! 3)" if "3 < length ?c" using highA [of 1] that by simp
    have h4: "?sA (?c ! 4) = s (?c ! 4)" if "4 < length ?c" using highA [of 2] that by simp
    have l0: "?sB (?c ! 0) = ?sA (?c ! 0)" if "0 < length ?c" using lowB [of 0] that by simp
    have l1: "?sB (?c ! 1) = ?sA (?c ! 1)" if "1 < length ?c" using lowB [of 1] that by simp
    from t show ?thesis
    proof
      assume "t = ?sA"
      then show ?thesis using uf h2 h3 h4 by simp
    next
      assume "t = ?sB"
      then show ?thesis using uf mf h2 h3 h4 l0 l1 by simp
    qed
  qed
  show ?thesis
  proof (intro conjI allI impI)
    show "align_mono E ?c alignment_wvl alignment_condition alignment_condition_value
            GM2_trans_dist GM3_proj_dist s = (Some (ValueError no_grating_msg), s)"
      by (rule align_mono_no_match [OF sc])
  next
    show "fst (align_call E ?c alignment_wvl emission_wvl alignment_condition
            alignment_condition_value m1_distances GM2_trans_dist GM3_proj_dist kwargs s) \<noteq> None"
      using out by simp
  next
    fix s1 s2
    assume "align_undulator E ?c emission_wvl kwargs s = (None, s1) \<and>
            align_m1 E ?c m1_distances kwargs s1 = (None, s2)"
    then show "align_call E ?c alignment_wvl emission_wvl alignment_condition
        alignment_condition_value m1_distances GM2_trans_dist GM3_proj_dist kwargs s =
        (Some (ValueError no_grating_msg), s2)"
      using align_call_no_match [OF sc] by blast
  next
    fix h assume "h \<notin> set (take 5 ?c)"
    from outside [OF this] s' show "?s' h = s h" by auto
  qed (use fields [OF _ s'] in blast)+
qed

text \<open>The theorem on the concrete beamline without its grating.\<close>

theorem align_call_no_grating_witness:
  "distinct (take 5 demo_chain_bare) \<and>
   align_mono demo_env demo_chain_bare (3 / 10 ^ 9) ''omega'' (12 / 1000) (20 / 1000)
     (700 / 1000) demo_store = (Some (ValueError no_grating_msg), demo_store) \<and>
   fst (align_undulator demo_env demo_chain_bare (3 / 10 ^ 9) demo_kwargs demo_store) = None \<and>
   fst (align_m1 demo_env demo_chain_bare demo_m1_distances demo_kwargs
     (snd (align_undulator demo_env demo_chain_bare (3 / 10 ^ 9) demo_kwargs demo_store))) = None \<and>
   align_call demo_env demo_chain_bare (3 / 10 ^ 9) (3 / 10 ^ 9) ''omega'' (12 / 1000)
     demo_m1_distances (20 / 1000) (700 / 1000) demo_kwargs demo_store =
     (Some (ValueError no_grating_msg),
      snd (align_m1 demo_env demo_chain_bare demo_m1_distances demo_kwargs
        (snd (align_undulator demo_env demo_chain_bare (3 / 10 ^ 9) demo_kwargs demo_store)))) \<and>
   snd (align_call demo_env demo_chain_bare (3 / 10 ^ 9) (3 / 10 ^ 9) ''omega'' (12 / 1000)
     demo_m1_distances (20 / 1000) (700 / 1000) demo_kwargs demo_store) 6 = demo_store 6 \<and>
   snd (align_call demo_env demo_chain_bare (3 / 10 ^ 9) (3 / 10 ^ 9) ''omega'' (12 / 1000)
     demo_m1_distances (20 / 1000) (700 / 1000) demo_kwargs demo_store) 7 = demo_store 7 \<and>
   (snd (align_call demo_env demo_chain_bare (3 / 10 ^ 9) (3 / 10 ^ 9) ''omega'' (12 / 1000)
     demo_m1_distances (20 / 1000) (700 / 1000) demo_kwargs demo_store) 0)
     \<lparr>engine_state := engine_state (demo_store 0)\<rparr> = demo_store 0 \<and>
   (snd (align_call demo_env demo_chain_bare (3 / 10 ^ 9) (3 / 10 ^ 9) ''omega'' (12 / 1000)
     demo_m1_distances (20 / 1000) (700 / 1000) demo_kwargs demo_store) 1)
     \<lparr>distance_from_previous := distance_from_previous (demo_store 1)\<rparr> = demo_store 1 \<and>
   (snd (align_call demo_env demo_chain_bare (3 / 10 ^ 9) (3 / 10 ^ 9) ''omega'' (12 / 1000)
     demo_m1_distances (20 / 1000) (700 / 1000) demo_kwargs demo_store) 2)
     \<lparr>theta := theta (demo_store 2), next_oe := next_oe (demo_store 2)\<rparr> = demo_store 2 \<and>
   (snd (align_call demo_env demo_chain_bare (3 / 10 ^ 9) (3 / 10 ^ 9) ''omega'' (12 / 1000)
     demo_m1_distances (20 / 1000) (700 / 1000) demo_kwargs demo_store) 3)
     \<lparr>next_oe := next_oe (demo_store 3)\<rparr> = demo_store 3 \<and>
   (snd (align_call demo_env demo_chain_bare (3 / 10 ^ 9) (3 / 10 ^ 9) ''omega'' (12 / 1000)
     demo_m1_distances (20 / 1000) (700 / 1000) demo_kwargs demo_store) 5)
     \<lparr>distance_from_previous := distance_from_previous (demo_store 5)\<rparr> = demo_store 5"
proof -
  let ?u = "align_undulator demo_env demo_chain_bare (3 / 10 ^ 9) demo_kwargs demo_store"
  let ?m = "align_m1 demo_env demo_chain_bare demo_m1_distances demo_kwargs (snd ?u)"
  let ?r = "align_call demo_env demo_chain_bare (3 / 10 ^ 9) (3 / 10 ^ 9) ''omega'' (12 / 1000)
     demo_m1_distances (20 / 1000) (700 / 1000) demo_kwargs demo_store"
  have no: "\<forall>h \<in> set demo_chain_bare. \<not> is_grating_name (name (demo_store h))"
    by (simp add: demo_chain_bare_def demo_store_def demo_oe_def demo_names)
  have uf: "fst ?u = None"
    by (rule demo_bare_undulator(1))
  have u: "?u = (None, snd ?u)"
    using uf by (simp add: prod_eq_iff)
  have mf: "fst ?m = None"
    using demo_bare_undulator(2) [of "3 / 10 ^ 9"] by (rule demo_bare_m1(1))
  have m: "?m = (None, snd ?m)"
    using mf by (simp add: prod_eq_iff)
  have d: "distinct (take 5 demo_chain_bare)" by (simp add: demo_chain_bare_def)
  have t5: "take 5 demo_chain_bare = [0, 1, 2, 3, 5]" by (simp add: demo_chain_bare_def)
  have n: "demo_chain_bare ! 0 = 0" "demo_chain_bare ! 2 = 2"
    "demo_chain_bare ! 3 = 3" "demo_chain_bare ! 4 = 5" "length demo_chain_bare = 8"
    by (simp_all add: demo_chain_bare_def)
  have n1: "demo_chain_bare ! 1 = 1" by (simp add: demo_chain_bare_def)
  note T = align_call_no_grating [OF no, where E = demo_env and alignment_wvl = "3 / 10 ^ 9"
      and alignment_condition = "''omega''" and alignment_condition_value = "12 / 1000"
      and GM2_trans_dist = "20 / 1000" and GM3_proj_dist = "700 / 1000"
      and emission_wvl = "3 / 10 ^ 9" and kwargs = demo_kwargs
      and m1_distances = demo_m1_distances]
  from T u m have c: "?r = (Some (ValueError no_grating_msg), snd ?m)"
    by blast
  from T have out: "\<And>h. h \<notin> set (take 5 demo_chain_bare) \<Longrightarrow> snd ?r h = demo_store h"
    by blast
  have o6: "snd ?r 6 = demo_store 6" and o7: "snd ?r 7 = demo_store 7"
    by (rule out, simp add: t5)+
  from T d have f: "(snd ?r (demo_chain_bare ! 0))\<lparr>engine_state := engine_state (demo_store (demo_chain_bare ! 0))\<rparr> = demo_store (demo_chain_bare ! 0)"
    "(snd ?r (demo_chain_bare ! 1))\<lparr>distance_from_previous := distance_from_previous (demo_store (demo_chain_bare ! 1))\<rparr> = demo_store (demo_chain_bare ! 1)"
    "(snd ?r (demo_chain_bare ! 2))\<lparr>theta := theta (demo_store (demo_chain_bare ! 2)), next_oe := next_oe (demo_store (demo_chain_bare ! 2))\<rparr> = demo_store (demo_chain_bare ! 2)"
    "(snd ?r (demo_chain_bare ! 3))\<lparr>next_oe := next_oe (demo_store (demo_chain_bare ! 3))\<rparr> = demo_store (demo_chain_bare ! 3)"
    "(snd ?r (demo_chain_bare ! 4))\<lparr>distance_from_previous := distance_from_previous (demo_store (demo_chain_bare ! 4))\<rparr> = demo_store (demo_chain_bare ! 4)"
    using n(5) by simp_all
  from T have am: "align_mono demo_env demo_chain_bare (3 / 10 ^ 9) ''omega'' (12 / 1000)
      (20 / 1000) (700 / 1000) demo_store = (Some (ValueError no_grating_msg), demo_store)"
    by blast
  show ?thesis
    using d am uf mf c o6 o7 f [unfolded n n1] by simp
qed

subsection \<open>Running the alignment twice\<close>

lemma align_mono_name:
  "name (snd (align_mono E c w cond v gm2 gm3 s) h) = name (s h)"
  by (simp add: align_mono_def Let_def split: option.splits sum.splits prod.splits)

lemma align_undulator_replay:
  assumes r: "align_undulator E c w kw s = (None, sA)"
    and ne: "c ! 0 \<noteq> c ! 1"
    and nm: "name (t (c ! 0)) = name (s (c ! 0))"
    and su: "set_undulator E w kw (t (c ! 0)) = Inr (engine_state (sA (c ! 0)))"
  shows "align_undulator E c w kw t =
           (None, t(c ! 0 := (t (c ! 0))\<lparr>engine_state := engine_state (sA (c ! 0))\<rparr>,
                    c ! 1 := (t (c ! 1))\<lparr>distance_from_previous :=
                                distance_from_previous (sA (c ! 1))\<rparr>))"
  using r ne nm su
  by (auto simp: align_undulator_def Let_def item_def split: sum.splits if_splits)

lemma align_undulator_source:
  assumes r: "align_undulator E c w kw s = (None, sA)"
    and ne: "c ! 0 \<noteq> c ! 1"
  shows "\<exists>u. set_undulator E w kw (s (c ! 0)) = Inr u \<and>
             sA (c ! 0) = (s (c ! 0))\<lparr>engine_state := u\<rparr>"
  using r ne
  by (auto simp: align_undulator_def Let_def item_def split: sum.splits if_splits)

lemma align_m1_replay:
  assumes r: "align_m1 E c m kw s = (None, sB)"
    and ne: "c ! 2 \<noteq> c ! 3" "c ! 2 \<noteq> c ! 4" "c ! 3 \<noteq> c ! 4"
    and nm: "name (t (c ! 3)) = name (s (c ! 3))"
    and th: "theta (t (c ! 3)) = theta (s (c ! 3))"
  shows "align_m1 E c m kw t =
           (None, t(c ! 2 := (t (c ! 2))\<lparr>theta := theta (sB (c ! 2)),
                                            next_oe := next_oe (sB (c ! 2))\<rparr>,
                    c ! 3 := (t (c ! 3))\<lparr>next_oe := next_oe (sB (c ! 3))\<rparr>,
                    c ! 4 := (t (c ! 4))\<lparr>distance_from_previous :=
                                distance_from_previous (sB (c ! 4))\<rparr>))"
  using r ne nm th
  by (auto simp: align_m1_def Let_def item_def split: sum.splits if_splits)

lemma align_m1_frame_normal:
  assumes r: "align_m1 E c m kw s = (None, sB)"
    and h: "h \<noteq> c ! 2" "h \<noteq> c ! 3" "h \<noteq> c ! 4"
  shows "sB h = s h"
  using r h
  by (auto simp: align_m1_def Let_def item_def split: sum.splits if_splits)

lemma align_m1_fourth:
  assumes r: "align_m1 E c m kw s = (None, sB)"
    and ne: "c ! 2 \<noteq> c ! 3" "c ! 3 \<noteq> c ! 4"
  shows "theta (sB (c ! 3)) = theta (s (c ! 3))"
  using r ne
  by (auto simp: align_m1_def Let_def item_def split: sum.splits if_splits)

lemma align_call_normal:
  assumes "align_call E c aw ew cond v md gm2 gm3 kw s = (None, s')"
  shows "\<exists>sA sB. align_undulator E c ew kw s = (None, sA) \<and>
           align_m1 E c md kw sA = (None, sB) \<and>
           align_mono E c aw cond v gm2 gm3 sB = (None, s')"
  using assms
  by (auto simp: align_call_def split: prod.splits option.splits)

lemma align_undulator_attrs:
  "grating_attrs (snd (align_undulator E c w kw s) h) = grating_attrs (s h)"
  by (simp add: align_undulator_def Let_def split: sum.splits)

lemma align_m1_attrs:
  "grating_attrs (snd (align_m1 E c m kw s) h) = grating_attrs (s h)"
  by (simp add: align_m1_def Let_def split: sum.splits)

lemma align_call_steps:
  assumes "fst (align_undulator E c ew kw s) = None"
    and "fst (align_m1 E c md kw (snd (align_undulator E c ew kw s))) = None"
  shows "align_call E c aw ew cond v md gm2 gm3 kw s =
           align_mono E c aw cond v gm2 gm3
             (snd (align_m1 E c md kw (snd (align_undulator E c ew kw s))))"
  using assms by (auto simp: align_call_def split: prod.splits option.splits)

lemma demo_undulator_returns:
  "fst (align_undulator demo_env demo_chain w demo_kwargs demo_store) = None"
  by (simp add: align_undulator_def item_def demo_chain_def demo_store_def demo_oe_def
        demo_tags demo_table demo_kwargs_def kwargs_get_def Let_def demo_env_def iloc0_def)

lemma demo_m1_returns:
  "fst (align_m1 demo_env demo_chain demo_m1_distances demo_kwargs t) = None"
  by (simp add: align_m1_def item_def demo_chain_def item2_def demo_m1_distances_def Let_def)

lemma demo_scan: "scan_chain demo_store demo_chain 0 None = Some (4, 4)"
  by (simp add: demo_chain_def demo_store_def demo_oe_def demo_names)

text \<open>
  Claim C5. Take an active chain of different objects in which the grating is located
  at or after the fifth position, as in every chain the notebook builds, and
  collaborators that are idempotent: the source model, asked again on the source it
  has configured, gives the same state, and the solver, asked again on the grating it
  has aligned, gives the same results. If \<open>align_call\<close> returns normally with store
  \<open>s'\<close>, then \<open>align_call\<close> with the same inputs on \<open>s'\<close> returns normally with
  store \<open>s'\<close>: every field of every element, angles and distances included, is
  identical after the second run. Each step overwrites what it wrote before.
\<close>

theorem align_call_idempotent:
  assumes d: "distinct active_chain"
    and run: "align_call E active_chain alignment_wvl emission_wvl alignment_condition
                alignment_condition_value m1_distances GM2_trans_dist GM3_proj_dist kwargs s =
              (None, s')"
    and sc: "scan_chain s active_chain 0 None = Some (grating, p)"
    and p4: "4 \<le> p"
    and su: "\<And>e u. set_undulator E emission_wvl kwargs e = Inr u \<Longrightarrow>
               set_undulator E emission_wvl kwargs (e\<lparr>engine_state := u\<rparr>) = Inr u"
    and ag: "\<And>k n e th u gd.
               align_grating E alignment_condition alignment_condition_value alignment_wvl
                 k n e = Inr (th, u, gd) \<Longrightarrow>
               align_grating E alignment_condition alignment_condition_value alignment_wvl
                 k n (e\<lparr>theta := th, engine_state := u\<rparr>) = Inr (th, u, gd)"
  shows "align_call E active_chain alignment_wvl emission_wvl alignment_condition
           alignment_condition_value m1_distances GM2_trans_dist GM3_proj_dist kwargs s' =
         (None, s')"
proof -
  let ?c = active_chain
  from align_call_normal [OF run] obtain sA sB
    where A: "align_undulator E ?c emission_wvl kwargs s = (None, sA)"
      and B: "align_m1 E ?c m1_distances kwargs sA = (None, sB)"
      and C: "align_mono E ?c alignment_wvl alignment_condition alignment_condition_value
                GM2_trans_dist GM3_proj_dist sB = (None, s')"
    by blast
  have nA: "name (sA h) = name (s h)" for h
    using align_undulator_name [of E ?c emission_wvl kwargs s h] A by simp
  have nB: "name (sB h) = name (sA h)" for h
    using align_m1_name [of E ?c m1_distances kwargs sA h] B by simp
  have nC: "name (s' h) = name (sB h)" for h
    using align_mono_name [of E ?c alignment_wvl alignment_condition alignment_condition_value
        GM2_trans_dist GM3_proj_dist sB h] C by simp
  have scB: "scan_chain sB ?c 0 None = Some (grating, p)"
    using scan_chain_names [of sB s ?c 0 None] nA nB sc by simp
  have scC: "scan_chain s' ?c 0 None = Some (grating, p)"
    using scan_chain_names [of s' sB ?c 0 None] nC scB by simp
  from C have "fst (align_mono E ?c alignment_wvl alignment_condition alignment_condition_value
                GM2_trans_dist GM3_proj_dist sB) = None" by simp
  from align_mono_normal [OF this] scB obtain k n th u gd
    where at: "grating_attrs (sB grating) = Some (k, n)"
      and so: "align_grating E alignment_condition alignment_condition_value alignment_wvl
                 k n (sB grating) = Inr (th, u, gd)"
      and l: "p + 2 < length ?c"
    by auto
  have g: "grating = ?c ! p" using scan_chain_located [OF scB] by simp
  have ne: "?c ! i \<noteq> ?c ! j" if "i < length ?c" "j < length ?c" "i \<noteq> j" for i j
    using that nth_eq_iff_index_eq [OF d] by blast
  note loc = align_mono_located [OF scB at so l, of GM2_trans_dist GM3_proj_dist]
  have s'_def: "s' =
     (let s1 = sB(grating := (sB grating)\<lparr>theta := th, engine_state := u\<rparr>);
          s3 = s1(?c ! (p + 1) := (s1 (?c ! (p + 1)))
                 \<lparr>theta := fdiv E (deviation gd) (of_pyint E 2),
                  distance_from_previous := fdiv E GM2_trans_dist (np_sin E (deviation gd))\<rparr>)
      in s3(?c ! (p + 2) := (s3 (?c ! (p + 2)))
           \<lparr>distance_from_previous :=
              fsub E GM3_proj_dist (fdiv E GM2_trans_dist (np_tan E (deviation gd)))\<rparr>))"
    using loc C by simp
  have ne': "?c ! i \<noteq> ?c ! j" if "i < j" "j \<le> p + 2" for i j
  proof (rule ne)
    show "i < length ?c" "j < length ?c" "i \<noteq> j" using that l by simp_all
  qed
  have gp: "?c ! p \<noteq> ?c ! (p + 1)" "?c ! p \<noteq> ?c ! (p + 2)" "?c ! (p + 1) \<noteq> ?c ! (p + 2)"
    using ne' [of p "p + 1"] ne' [of p "p + 2"] ne' [of "p + 1" "p + 2"] by simp_all
  have low: "?c ! i \<noteq> ?c ! (p + 1)" "?c ! i \<noteq> ?c ! (p + 2)" if "i \<le> 4" for i
    using ne' [of i "p + 1"] ne' [of i "p + 2"] p4 that by simp_all
  have lowg: "?c ! i \<noteq> ?c ! p" if "i < 4" for i
    using ne' [of i p] p4 that by simp
  have c01: "?c ! 0 \<noteq> ?c ! 1" using ne' [of 0 1] p4 by simp
  have c0: "?c ! 0 \<noteq> ?c ! 2" "?c ! 0 \<noteq> ?c ! 3" "?c ! 0 \<noteq> ?c ! 4"
    using ne' [of 0 2] ne' [of 0 3] ne' [of 0 4] p4 by simp_all
  have c1: "?c ! 1 \<noteq> ?c ! 2" "?c ! 1 \<noteq> ?c ! 3" "?c ! 1 \<noteq> ?c ! 4"
    using ne' [of 1 2] ne' [of 1 3] ne' [of 1 4] p4 by simp_all
  have c234: "?c ! 2 \<noteq> ?c ! 3" "?c ! 2 \<noteq> ?c ! 4" "?c ! 3 \<noteq> ?c ! 4"
    using ne' [of 2 3] ne' [of 2 4] ne' [of 3 4] p4 by simp_all
  \<comment> \<open>what the monochromator step left alone\<close>
  have keep: "s' (?c ! i) = sB (?c ! i)" if "i < 4" for i
    using low [of i] lowg [of i] that by (simp add: s'_def Let_def g)
  have keep4: "distance_from_previous (s' (?c ! 4)) = distance_from_previous (sB (?c ! 4))"
    using low [of 4] by (simp add: s'_def Let_def g)
  \<comment> \<open>the undulator step, run again\<close>
  from align_undulator_source [OF A c01] obtain u0
    where u0: "set_undulator E emission_wvl kwargs (s (?c ! 0)) = Inr u0"
      and sA0: "sA (?c ! 0) = (s (?c ! 0))\<lparr>engine_state := u0\<rparr>"
    by blast
  have B0: "sB (?c ! 0) = sA (?c ! 0)" and B1: "sB (?c ! 1) = sA (?c ! 1)"
    using align_m1_frame_normal [OF B, of "?c ! 0"] align_m1_frame_normal [OF B, of "?c ! 1"]
      c0 c1 by simp_all
  have s0: "s' (?c ! 0) = sA (?c ! 0)" and s1: "s' (?c ! 1) = sA (?c ! 1)"
    using keep [of 0] keep [of 1] B0 B1 by simp_all
  have su': "set_undulator E emission_wvl kwargs (s' (?c ! 0)) =
      Inr (engine_state (sA (?c ! 0)))"
    using su [OF u0] by (simp add: s0 sA0)
  have nm0: "name (s' (?c ! 0)) = name (s (?c ! 0))"
    by (simp add: nC nB nA)
  from A c01 nm0 su' have "align_undulator E ?c emission_wvl kwargs s' =
      (None, s'(?c ! 0 := (s' (?c ! 0))\<lparr>engine_state := engine_state (sA (?c ! 0))\<rparr>,
                ?c ! 1 := (s' (?c ! 1))\<lparr>distance_from_previous :=
                             distance_from_previous (sA (?c ! 1))\<rparr>))"
    by (rule align_undulator_replay)
  moreover have "s'(?c ! 0 := (s' (?c ! 0))\<lparr>engine_state := engine_state (sA (?c ! 0))\<rparr>,
                ?c ! 1 := (s' (?c ! 1))\<lparr>distance_from_previous :=
                             distance_from_previous (sA (?c ! 1))\<rparr>) = s'"
    using s0 s1 by (auto simp: fun_eq_iff)
  ultimately have A': "align_undulator E ?c emission_wvl kwargs s' = (None, s')"
    by simp
  \<comment> \<open>the M1 step, run again\<close>
  have t3: "theta (sB (?c ! 3)) = theta (sA (?c ! 3))"
    using align_m1_fourth [OF B] c234 by simp
  have "align_m1 E ?c m1_distances kwargs s' =
      (None, s'(?c ! 2 := (s' (?c ! 2))\<lparr>theta := theta (sB (?c ! 2)),
                                           next_oe := next_oe (sB (?c ! 2))\<rparr>,
                ?c ! 3 := (s' (?c ! 3))\<lparr>next_oe := next_oe (sB (?c ! 3))\<rparr>,
                ?c ! 4 := (s' (?c ! 4))\<lparr>distance_from_previous :=
                             distance_from_previous (sB (?c ! 4))\<rparr>))"
    using B c234
  proof (rule align_m1_replay)
    show "name (s' (?c ! 3)) = name (sA (?c ! 3))" by (simp add: nC nB)
    show "theta (s' (?c ! 3)) = theta (sA (?c ! 3))" using keep [of 3] t3 by simp
  qed
  moreover have "s'(?c ! 2 := (s' (?c ! 2))\<lparr>theta := theta (sB (?c ! 2)),
                                           next_oe := next_oe (sB (?c ! 2))\<rparr>,
                ?c ! 3 := (s' (?c ! 3))\<lparr>next_oe := next_oe (sB (?c ! 3))\<rparr>,
                ?c ! 4 := (s' (?c ! 4))\<lparr>distance_from_previous :=
                             distance_from_previous (sB (?c ! 4))\<rparr>) = s'"
    using keep [of 2] keep [of 3] keep4 by (auto simp: fun_eq_iff)
  ultimately have B': "align_m1 E ?c m1_distances kwargs s' = (None, s')"
    by simp
  \<comment> \<open>the monochromator step, run again\<close>
  have sg: "s' grating = (sB grating)\<lparr>theta := th, engine_state := u\<rparr>"
    using gp by (simp add: s'_def Let_def g)
  have at': "grating_attrs (s' grating) = Some (k, n)"
    using at by (simp add: sg)
  have so': "align_grating E alignment_condition alignment_condition_value alignment_wvl
               k n (s' grating) = Inr (th, u, gd)"
    using ag [OF so] by (simp add: sg)
  have C': "align_mono E ?c alignment_wvl alignment_condition alignment_condition_value
              GM2_trans_dist GM3_proj_dist s' = (None, s')"
    unfolding align_mono_located [OF scC at' so' l, of GM2_trans_dist GM3_proj_dist]
    using gp by (auto simp: s'_def Let_def g fun_eq_iff)
  show ?thesis
    by (simp add: align_call_def A' B' C')
qed

text \<open>The theorem on the concrete beamline.\<close>

theorem align_call_idempotent_witness:
  "distinct demo_chain \<and>
   scan_chain demo_store demo_chain 0 None = Some (4, 4) \<and>
   fst (align_call demo_env demo_chain (3 / 10 ^ 9) (3 / 10 ^ 9) ''omega'' (12 / 1000)
          demo_m1_distances (20 / 1000) (700 / 1000) demo_kwargs demo_store) = None \<and>
   align_call demo_env demo_chain (3 / 10 ^ 9) (3 / 10 ^ 9) ''omega'' (12 / 1000)
     demo_m1_distances (20 / 1000) (700 / 1000) demo_kwargs
     (snd (align_call demo_env demo_chain (3 / 10 ^ 9) (3 / 10 ^ 9) ''omega'' (12 / 1000)
            demo_m1_distances (20 / 1000) (700 / 1000) demo_kwargs demo_store)) =
   (None, snd (align_call demo_env demo_chain (3 / 10 ^ 9) (3 / 10 ^ 9) ''omega'' (12 / 1000)
            demo_m1_distances (20 / 1000) (700 / 1000) demo_kwargs demo_store))"
proof -
  let ?u = "align_undulator demo_env demo_chain (3 / 10 ^ 9) demo_kwargs demo_store"
  let ?m = "align_m1 demo_env demo_chain demo_m1_distances demo_kwargs (snd ?u)"
  let ?g = "align_mono demo_env demo_chain (3 / 10 ^ 9) ''omega'' (12 / 1000) (20 / 1000)
              (700 / 1000) (snd ?m)"
  let ?r = "align_call demo_env demo_chain (3 / 10 ^ 9) (3 / 10 ^ 9) ''omega'' (12 / 1000)
              demo_m1_distances (20 / 1000) (700 / 1000) demo_kwargs demo_store"
  have d: "distinct demo_chain" by (simp add: demo_chain_def)
  have u: "?u = (None, snd ?u)"
    using demo_undulator_returns [of "3 / 10 ^ 9"] by (simp add: prod_eq_iff)
  have m: "?m = (None, snd ?m)"
    using demo_m1_returns [of "snd ?u"] by (simp add: prod_eq_iff)
  have nm: "name (snd ?m h) = name (demo_store h)" for h
    by (simp add: align_m1_name align_undulator_name)
  have sc: "scan_chain (snd ?m) demo_chain 0 None = Some (4, 4)"
    using scan_chain_names [of "snd ?m" demo_store demo_chain 0 None] nm demo_scan by simp
  have at: "grating_attrs (snd ?m 4) = Some (1, 1600000)"
    by (simp add: align_m1_attrs align_undulator_attrs demo_attrs)
  have so: "align_grating demo_env ''omega'' (12 / 1000) (3 / 10 ^ 9) 1 1600000 (snd ?m 4) =
      Inr (12 / 1000, engine_state (snd ?m 4),
           \<lparr>alpha = 12 / 1000, beta = 12 / 1000, alpha_deg = 12 / 1000, beta_deg = 12 / 1000,
            deviation = 2 * (12 / 1000)\<rparr>)"
    by (rule demo_solver)
  have l: "4 + 2 < length demo_chain" by (simp add: demo_chain_def)
  have g: "fst ?g = None"
    using align_mono_located [OF sc at so l, of "20 / 1000" "700 / 1000"] by simp
  have r: "?r = ?g"
    using demo_undulator_returns demo_m1_returns by (rule align_call_steps)
  have run: "?r = (None, snd ?r)"
    using g r by (simp add: prod_eq_iff)
  have su: "set_undulator demo_env (3 / 10 ^ 9) demo_kwargs (e\<lparr>engine_state := u\<rparr>) = Inr u"
    if "set_undulator demo_env (3 / 10 ^ 9) demo_kwargs e = Inr u" for e u
    using that by (simp add: demo_env_def)
  have ag: "align_grating demo_env ''omega'' (12 / 1000) (3 / 10 ^ 9) k n
              (e\<lparr>theta := th, engine_state := u\<rparr>) = Inr (th, u, gd)"
    if "align_grating demo_env ''omega'' (12 / 1000) (3 / 10 ^ 9) k n e = Inr (th, u, gd)"
    for k n e th u gd
    using that by (simp add: demo_env_def)
  have p4: "(4::nat) \<le> 4" by simp
  have "align_call demo_env demo_chain (3 / 10 ^ 9) (3 / 10 ^ 9) ''omega'' (12 / 1000)
          demo_m1_distances (20 / 1000) (700 / 1000) demo_kwargs (snd ?r) = (None, snd ?r)"
    using d run demo_scan p4 su ag by (rule align_call_idempotent)
  then show ?thesis
    using d demo_scan run g r by simp
qed

subsection \<open>The energy sweep\<close>

lemma energy_loop_small:
  assumes "energy \<noteq> []" "total_steps < 10"
  shows "energy_loop W cond algn nrays total_steps i energy curves b = (Inl ZeroDivisionError, b)"
proof -
  obtain E rest where "energy = E # rest" using assms(1) by (cases energy) simp_all
  then show ?thesis using assms(2) by (simp add: py_mod_def)
qed

text \<open>
  Claim C9. For a non-empty energy array of fewer than 10 points, with a first
  condition value and a first configuration that the engine accepts as active chain,
  \<open>beamline_energy_resolution\<close> raises ZeroDivisionError at the first energy point:
  the state of the beamline is the one the selection of the chain left, so no
  resolution has been computed, and no table is returned.
\<close>

theorem small_sweep_raises:
  assumes ne: "energy \<noteq> []" and small: "length energy < 10"
    and sel: "set_active_chain W config b = Inr b1"
  shows "beamline_energy_resolution W energy (config # configs) alignment_condition
           (algn # algns) nrays b = (Inl ZeroDivisionError, b1)"
  by (simp add: beamline_energy_resolution_def sel energy_loop_small [OF ne small])

text \<open>
  The theorem on the three-point array of the specification's scenario: the counter
  of resolution computations is still zero.
\<close>

theorem small_sweep_raises_witness:
  "[350, 1000, 1500] \<noteq> ([] :: real list) \<and> length [350, 1000, 1500 :: real] < 10 \<and>
   beamline_energy_resolution demo_sweep [350, 1000, 1500] [''U52_M1B_G1600_mono''] ''cff''
     [1 / 10, 1 / 2] 500 0 = (Inl ZeroDivisionError, 0)"
proof -
  have sel: "set_active_chain demo_sweep ''U52_M1B_G1600_mono'' 0 = Inr 0"
    by (simp add: demo_sweep_def)
  have ne: "[350, 1000, 1500] \<noteq> ([] :: real list)" by simp
  have small: "length [350, 1000, 1500 :: real] < 10" by simp
  show ?thesis
    using small_sweep_raises [OF ne small sel, of "[]" "''cff''" "1 / 10" "[1 / 2]" 500] ne small
    by simp
qed

text \<open>
  Claim C3 asks for a table from three energy points, one configuration and two
  condition values. On such an input the code returns no table: it raises the error
  of the chain selection if that fails, and ZeroDivisionError otherwise.
\<close>

theorem three_point_sweep_raises:
  "fst (beamline_energy_resolution W [e1, e2, e3] [config] alignment_condition [a1, a2] nrays b) =
     (case set_active_chain W config b of Inl e \<Rightarrow> Inl e | Inr b1 \<Rightarrow> Inl ZeroDivisionError)"
  by (simp add: beamline_energy_resolution_def py_mod_def split: sum.splits)

end
